theory Spec2Isabelle
  imports Complex_Main
begin

section \<open>The water usage logger (index.js)\<close>

text \<open>
  A shallow embedding of \<^verbatim>\<open>src/index.js\<close>. The functions of the program keep their
  names. The parts of the JavaScript runtime that the program calls (Number, Date, JSON,
  String and Array methods) are modelled after ECMA-262, with these idealisations:
  \<^item> a Number is NaN, an infinity, or a finite value. Arithmetic is exact (rational),
    except where \<open>maybePrintWeeklyChange\<close> computes the change of the week: there every
    operation rounds its result to the nearest double, since that rounding decides the
    whole per cent that is printed. The range of the exponent of a double (overflow to an
    infinity, subnormal numbers) and the sign of zero are not modelled;
  \<^item> a String is a list of 8-bit characters, a character being its own code unit;
  \<^item> a Date holds a time value in milliseconds of local time, local time being a fixed
    offset from UTC (no daylight saving shifts); the bound of a time value
    (100 000 000 days around the epoch) is not modelled;
  \<^item> the text of the data file is kept up to the JSON value it denotes;
  \<^item> writing the data file always succeeds.
\<close>

subsection \<open>Numbers\<close>

datatype jsnum = NaN | PInf | NInf | Fin rat

fun num_neg :: "jsnum \<Rightarrow> jsnum" where
  "num_neg NaN = NaN"
| "num_neg PInf = NInf"
| "num_neg NInf = PInf"
| "num_neg (Fin a) = Fin (- a)"

text \<open>\<^verbatim>\<open>a + b\<close> on Numbers.\<close>

fun num_add :: "jsnum \<Rightarrow> jsnum \<Rightarrow> jsnum" where
  "num_add (Fin a) (Fin b) = Fin (a + b)"
| "num_add NaN _ = NaN"
| "num_add _ NaN = NaN"
| "num_add PInf NInf = NaN"
| "num_add NInf PInf = NaN"
| "num_add PInf _ = PInf"
| "num_add _ PInf = PInf"
| "num_add NInf _ = NInf"
| "num_add _ NInf = NInf"

text \<open>\<^verbatim>\<open>a - b\<close> on Numbers.\<close>

definition num_sub :: "jsnum \<Rightarrow> jsnum \<Rightarrow> jsnum" where
  "num_sub a b = num_add a (num_neg b)"

text \<open>The sign of a Number that is not NaN: -1, 0 or 1.\<close>

fun num_sgn :: "jsnum \<Rightarrow> int" where
  "num_sgn NaN = 0"
| "num_sgn PInf = 1"
| "num_sgn NInf = - 1"
| "num_sgn (Fin a) = (if a < 0 then - 1 else if a = 0 then 0 else 1)"

definition inf_of_sgn :: "int \<Rightarrow> jsnum" where
  "inf_of_sgn s = (if s = 0 then NaN else if s < 0 then NInf else PInf)"

text \<open>\<^verbatim>\<open>a * b\<close> on Numbers: an infinity times zero is NaN.\<close>

fun num_mul :: "jsnum \<Rightarrow> jsnum \<Rightarrow> jsnum" where
  "num_mul (Fin a) (Fin b) = Fin (a * b)"
| "num_mul NaN _ = NaN"
| "num_mul _ NaN = NaN"
| "num_mul a b = inf_of_sgn (num_sgn a * num_sgn b)"

text \<open>
  \<^verbatim>\<open>a / b\<close> on Numbers. A zero divisor is taken as +0; the program divides at two
  places only, both behind a test that the divisor is not zero.
\<close>

fun num_div :: "jsnum \<Rightarrow> jsnum \<Rightarrow> jsnum" where
  "num_div (Fin a) (Fin b) = (if b = 0 then inf_of_sgn (num_sgn (Fin a)) else Fin (a / b))"
| "num_div NaN _ = NaN"
| "num_div _ NaN = NaN"
| "num_div (Fin a) _ = Fin 0"
| "num_div a (Fin b) = inf_of_sgn (num_sgn a * (if b < 0 then - 1 else 1))"
| "num_div _ _ = NaN"

text \<open>The comparisons \<^verbatim>\<open>a < b\<close> and \<^verbatim>\<open>a <= b\<close>: false when an operand is NaN.\<close>

fun num_lt :: "jsnum \<Rightarrow> jsnum \<Rightarrow> bool" where
  "num_lt (Fin a) (Fin b) = (a < b)"
| "num_lt NaN _ = False"
| "num_lt _ NaN = False"
| "num_lt NInf b = (b \<noteq> NInf)"
| "num_lt a PInf = (a \<noteq> PInf)"
| "num_lt _ _ = False"

definition num_le :: "jsnum \<Rightarrow> jsnum \<Rightarrow> bool" where
  "num_le a b = (a \<noteq> NaN \<and> b \<noteq> NaN \<and> (a = b \<or> num_lt a b))"

text \<open>\<^verbatim>\<open>a === b\<close> on Numbers: NaN is not equal to itself.\<close>

definition num_eq :: "jsnum \<Rightarrow> jsnum \<Rightarrow> bool" where
  "num_eq a b = (a \<noteq> NaN \<and> a = b)"

text \<open>\<^verbatim>\<open>Math.round\<close>: the nearest integer, a tie going up.\<close>

definition round_half_up :: "rat \<Rightarrow> int" where
  "round_half_up a = \<lfloor>a + 1 / 2\<rfloor>"

fun Math_round :: "jsnum \<Rightarrow> jsnum" where
  "Math_round (Fin a) = Fin (of_int (round_half_up a))"
| "Math_round x = x"

fun Math_abs :: "jsnum \<Rightarrow> jsnum" where
  "Math_abs (Fin a) = Fin \<bar>a\<bar>"
| "Math_abs NaN = NaN"
| "Math_abs _ = PInf"

subsection \<open>Rounding to a double\<close>

text \<open>
  The number of binary digits of a positive integer, and the binary exponent \<open>e\<close> of a
  positive number \<open>x\<close>: \<open>2 ^ e \<le> x < 2 ^ (e + 1)\<close>.
\<close>

function bit_length :: "int \<Rightarrow> int" where
  "bit_length n = (if n \<le> 0 then 0 else 1 + bit_length (n div 2))"
  by pat_completeness auto
termination
  by (relation "measure nat") auto

declare bit_length.simps [simp del]

definition pow2 :: "int \<Rightarrow> rat" where
  "pow2 k = (if 0 \<le> k then 2 ^ nat k else 1 / 2 ^ nat (- k))"

definition binary_exponent :: "rat \<Rightarrow> int" where
  "binary_exponent x =
     (if 1 \<le> x then bit_length \<lfloor>x\<rfloor> - 1
      else - bit_length (\<lceil>1 / x\<rceil> - 1))"

text \<open>The nearest integer, a tie going to the even one.\<close>

definition round_half_even :: "rat \<Rightarrow> int" where
  "round_half_even q =
     (let f = \<lfloor>q\<rfloor>; r = q - of_int f
      in if r < 1 / 2 then f
         else if 1 / 2 < r then f + 1
         else if even f then f else f + 1)"

text \<open>
  The double nearest to a number: 53 significant binary digits, a tie going to the even
  significand. The range of the exponent is not bounded.
\<close>

definition double_of :: "rat \<Rightarrow> rat" where
  "double_of x =
     (if x = 0 then 0
      else
        (let ulp = pow2 (binary_exponent \<bar>x\<bar> - 52);
             n = round_half_even (\<bar>x\<bar> / ulp)
         in (if x < 0 then - 1 else 1) * of_int n * ulp))"

fun to_double :: "jsnum \<Rightarrow> jsnum" where
  "to_double (Fin a) = Fin (double_of a)"
| "to_double x = x"

text \<open>\<^verbatim>\<open>a - b\<close>, \<^verbatim>\<open>a / b\<close> and \<^verbatim>\<open>a * b\<close> with the result rounded to a double.\<close>

definition dbl_sub :: "jsnum \<Rightarrow> jsnum \<Rightarrow> jsnum" where
  "dbl_sub a b = to_double (num_sub a b)"

definition dbl_div :: "jsnum \<Rightarrow> jsnum \<Rightarrow> jsnum" where
  "dbl_div a b = to_double (num_div a b)"

definition dbl_mul :: "jsnum \<Rightarrow> jsnum \<Rightarrow> jsnum" where
  "dbl_mul a b = to_double (num_mul a b)"

subsection \<open>Strings and the text of a Number\<close>

definition digit_char :: "nat \<Rightarrow> char" where
  "digit_char d = char_of (48 + d)"

text \<open>The decimal digits of a natural number, without leading zeros.\<close>

fun nat_digits :: "nat \<Rightarrow> string" where
  "nat_digits n =
     (if n < 10 then [digit_char n] else nat_digits (n div 10) @ [digit_char (n mod 10)])"

declare nat_digits.simps [simp del]

definition int_toString :: "int \<Rightarrow> string" where
  "int_toString i = (if i < 0 then CHR ''-'' # nat_digits (nat (- i)) else nat_digits (nat i))"

text \<open>
  The text of a Number in a template literal. In the program every Number that is put
  into a template is the result of \<^verbatim>\<open>Math.round\<close>, so the finite case writes an integer:
  its decimal digits. (From 10^21 on JavaScript writes an exponent; that is not modelled.)
\<close>

fun Number_toString :: "jsnum \<Rightarrow> string" where
  "Number_toString NaN = ''NaN''"
| "Number_toString PInf = ''Infinity''"
| "Number_toString NInf = ''-Infinity''"
| "Number_toString (Fin a) = int_toString \<lfloor>a\<rfloor>"

text \<open>
  \<^verbatim>\<open>x.toFixed(1)\<close>: the sign, then the integer \<open>n\<close> with \<open>n / 10\<close> nearest to \<open>|x|\<close> (the
  larger one at a tie), written with a point before its last digit. (From 10^21 on
  JavaScript writes an exponent; that is not modelled.)
\<close>

fun toFixed1 :: "jsnum \<Rightarrow> string" where
  "toFixed1 (Fin a) =
     (let s = (if a < 0 then ''-'' else []);
          n = nat (round_half_up (\<bar>a\<bar> * 10))
      in s @ nat_digits (n div 10) @ ''.'' @ [digit_char (n mod 10)])"
| "toFixed1 x = Number_toString x"

subsection \<open>percentDiff and formatDiff\<close>

definition percentDiff :: "jsnum \<Rightarrow> jsnum \<Rightarrow> jsnum" where
  "percentDiff v baseline =
     (if num_eq baseline (Fin 0) then Fin 0
      else num_mul (num_div (num_sub v baseline) baseline) (Fin 100))"

definition formatDiff :: "jsnum \<Rightarrow> string" where
  "formatDiff diff =
     (let rounded = Math_round diff;
          sign = (if num_lt (Fin 0) rounded then ''+'' else [])
      in sign @ Number_toString rounded @ ''% vs baseline'')"

subsection \<open>Dates\<close>

text \<open>
  A Date object holds a time value (milliseconds, here of local time) or NaN. The day
  and calendar functions are those of ECMA-262 (Day, TimeWithinDay, DaysInYear,
  DayFromYear, YearFromTime, InLeapYear, MonthFromTime, DateFromTime, WeekDay, MakeDay,
  MakeDate).
\<close>

datatype jsdate = InvalidDate | TimeValue int

definition msPerDay :: int where
  "msPerDay = 86400000"

definition Day :: "int \<Rightarrow> int" where
  "Day t = t div msPerDay"

definition TimeWithinDay :: "int \<Rightarrow> int" where
  "TimeWithinDay t = t mod msPerDay"

definition DaysInYear :: "int \<Rightarrow> int" where
  "DaysInYear y =
     (if y mod 4 \<noteq> 0 then 365 else if y mod 100 \<noteq> 0 then 366
      else if y mod 400 \<noteq> 0 then 365 else 366)"

definition DayFromYear :: "int \<Rightarrow> int" where
  "DayFromYear y =
     365 * (y - 1970) + (y - 1969) div 4 - (y - 1901) div 100 + (y - 1601) div 400"

text \<open>
  The year of a day: the largest \<open>y\<close> with \<open>DayFromYear y \<le> d\<close>, found from the mean
  length of a year and put right by one year where needed.
\<close>

definition YearFromDay :: "int \<Rightarrow> int" where
  "YearFromDay d =
     (let y = 1970 + (d * 400) div 146097
      in if d < DayFromYear y then y - 1
         else if DayFromYear (y + 1) \<le> d then y + 1
         else y)"

definition YearFromTime :: "int \<Rightarrow> int" where
  "YearFromTime t = YearFromDay (Day t)"

definition leapDays :: "int \<Rightarrow> int" where
  "leapDays y = (if DaysInYear y = 366 then 1 else 0)"

definition InLeapYear :: "int \<Rightarrow> int" where
  "InLeapYear t = leapDays (YearFromTime t)"

definition DayWithinYear :: "int \<Rightarrow> int" where
  "DayWithinYear t = Day t - DayFromYear (YearFromTime t)"

text \<open>The day within its year on which month \<open>m\<close> (0 to 11) begins.\<close>

definition monthStart :: "int \<Rightarrow> int \<Rightarrow> int" where
  "monthStart m leap =
     (if m = 0 then 0 else if m = 1 then 31
      else [59, 90, 120, 151, 181, 212, 243, 273, 304, 334] ! nat (m - 2) + leap)"

definition MonthFromTime :: "int \<Rightarrow> int" where
  "MonthFromTime t =
     (let d = DayWithinYear t; l = InLeapYear t
      in if d < 31 then 0 else if d < 59 + l then 1 else if d < 90 + l then 2
         else if d < 120 + l then 3 else if d < 151 + l then 4 else if d < 181 + l then 5
         else if d < 212 + l then 6 else if d < 243 + l then 7 else if d < 273 + l then 8
         else if d < 304 + l then 9 else if d < 334 + l then 10 else 11)"

definition DateFromTime :: "int \<Rightarrow> int" where
  "DateFromTime t = DayWithinYear t - monthStart (MonthFromTime t) (InLeapYear t) + 1"

definition WeekDay :: "int \<Rightarrow> int" where
  "WeekDay t = (Day t + 4) mod 7"

text \<open>
  \<open>MakeDay year month date\<close>: the day number of the first of the month, which is
  \<open>month\<close> months after January of \<open>year\<close>, plus \<open>date - 1\<close>.
\<close>

definition MakeDay :: "int \<Rightarrow> int \<Rightarrow> int \<Rightarrow> int" where
  "MakeDay year month date =
     (let ym = year + month div 12; mn = month mod 12
      in DayFromYear ym + monthStart mn (leapDays ym) + date - 1)"

definition MakeDate :: "int \<Rightarrow> int \<Rightarrow> int" where
  "MakeDate day time = day * msPerDay + time"

text \<open>ToIntegerOrInfinity on a finite Number: the fraction is cut off.\<close>

definition trunc :: "rat \<Rightarrow> int" where
  "trunc a = (if a < 0 then \<lceil>a\<rceil> else \<lfloor>a\<rfloor>)"

text \<open>\<^verbatim>\<open>new Date(y, m, d)\<close>: a year from 0 to 99 is a year of the 20th century.\<close>

fun Date_ymd :: "jsnum \<Rightarrow> jsnum \<Rightarrow> jsnum \<Rightarrow> jsdate" where
  "Date_ymd (Fin y) (Fin m) (Fin d) =
     (let yi = trunc y;
          yr = (if 0 \<le> yi \<and> yi \<le> 99 then 1900 + yi else yi)
      in TimeValue (MakeDate (MakeDay yr (trunc m) (trunc d)) 0))"
| "Date_ymd _ _ _ = InvalidDate"

text \<open>The value of a Date in a comparison.\<close>

fun date_value :: "jsdate \<Rightarrow> jsnum" where
  "date_value InvalidDate = NaN"
| "date_value (TimeValue t) = Fin (of_int t)"

fun getFullYear :: "jsdate \<Rightarrow> jsnum" where
  "getFullYear InvalidDate = NaN"
| "getFullYear (TimeValue t) = Fin (of_int (YearFromTime t))"

fun getMonth :: "jsdate \<Rightarrow> jsnum" where
  "getMonth InvalidDate = NaN"
| "getMonth (TimeValue t) = Fin (of_int (MonthFromTime t))"

fun getDate :: "jsdate \<Rightarrow> jsnum" where
  "getDate InvalidDate = NaN"
| "getDate (TimeValue t) = Fin (of_int (DateFromTime t))"

fun getDay :: "jsdate \<Rightarrow> jsnum" where
  "getDay InvalidDate = NaN"
| "getDay (TimeValue t) = Fin (of_int (WeekDay t))"

fun setDate :: "jsdate \<Rightarrow> jsnum \<Rightarrow> jsdate" where
  "setDate (TimeValue t) (Fin dt) =
     TimeValue (MakeDate (MakeDay (YearFromTime t) (MonthFromTime t) (trunc dt))
                  (TimeWithinDay t))"
| "setDate _ _ = InvalidDate"

text \<open>\<^verbatim>\<open>d.setHours(0, 0, 0, 0)\<close>.\<close>

fun setHours0 :: "jsdate \<Rightarrow> jsdate" where
  "setHours0 InvalidDate = InvalidDate"
| "setHours0 (TimeValue t) = TimeValue (MakeDate (Day t) 0)"

definition startOfDay :: "jsdate \<Rightarrow> jsdate" where
  "startOfDay date = (let d = date in setHours0 d)"

text \<open>\<^verbatim>\<open>s.padStart(2, '0')\<close>.\<close>

definition padStart2 :: "string \<Rightarrow> string" where
  "padStart2 s = replicate (2 - length s) CHR ''0'' @ s"

definition toDateString :: "jsdate \<Rightarrow> string" where
  "toDateString date =
     (let d = startOfDay date;
          year = getFullYear d;
          month = padStart2 (Number_toString (num_add (getMonth d) (Fin 1)));
          day = padStart2 (Number_toString (getDate d))
      in Number_toString year @ ''-'' @ month @ ''-'' @ day)"

text \<open>
  \<open>getWeekRange today weeksAgo\<close>: \<open>weeksAgo = 1\<close> is last week (Monday to Sunday),
  2 the week before.
\<close>

record week_range =
  range_start :: jsdate
  range_end :: jsdate

definition getWeekRange :: "jsdate \<Rightarrow> jsnum \<Rightarrow> week_range" where
  "getWeekRange today weeksAgo =
     (let end0 = startOfDay today;
          end1 = setDate end0
                   (num_sub (num_sub (getDate end0) (Fin 1))
                      (num_mul (Fin 7) (num_sub weeksAgo (Fin 1))));
          start0 = startOfDay end1;
          start1 = setDate start0 (num_sub (getDate start0) (Fin 6))
      in \<lparr>range_start = start1, range_end = end1\<rparr>)"

subsection \<open>JSON values, exceptions and the data file\<close>

text \<open>
  The values that \<^verbatim>\<open>JSON.parse\<close> returns. An object is the list of its properties;
  \<open>map_of\<close> reads one. The value \<^verbatim>\<open>undefined\<close> is \<open>None\<close> of \<open>json option\<close>.
\<close>

datatype json =
  JNull | JBool bool | JNum rat | JStr string | JArr "json list" | JObj "(string \<times> json) list"

datatype exn = TypeError | SyntaxError | ENOENT | Error string

text \<open>
  The text of a file, up to the JSON value it denotes: \<open>Malformed\<close> is any text that
  \<^verbatim>\<open>JSON.parse\<close> rejects. The data file is absent (\<open>None\<close>) or holds a text.
\<close>

datatype file_text = Malformed | Encodes json

type_synonym disk = "file_text option"

definition existsSync :: "disk \<Rightarrow> bool" where
  "existsSync fs = (fs \<noteq> None)"

definition readFileSync :: "disk \<Rightarrow> exn + file_text" where
  "readFileSync fs = (case fs of None \<Rightarrow> Inl ENOENT | Some raw \<Rightarrow> Inr raw)"

definition writeFileSync :: "file_text \<Rightarrow> disk \<Rightarrow> disk" where
  "writeFileSync raw fs = Some raw"

definition JSON_parse :: "file_text \<Rightarrow> exn + json" where
  "JSON_parse raw = (case raw of Malformed \<Rightarrow> Inl SyntaxError | Encodes v \<Rightarrow> Inr v)"

definition JSON_stringify :: "json \<Rightarrow> file_text" where
  "JSON_stringify v = Encodes v"

fun isArray :: "json \<Rightarrow> bool" where
  "isArray (JArr xs) = True"
| "isArray _ = False"

text \<open>
  \<^verbatim>\<open>e.date\<close> and \<^verbatim>\<open>e.amount\<close>: reading a property of \<^verbatim>\<open>null\<close> throws; a primitive value
  and an array have neither property.
\<close>

fun getProp :: "json \<Rightarrow> string \<Rightarrow> exn + json option" where
  "getProp JNull k = Inl TypeError"
| "getProp (JObj kvs) k = Inr (map_of kvs k)"
| "getProp _ k = Inr None"

subsection \<open>Reading a Number from a String\<close>

text \<open>White space and line terminators among the 8-bit characters.\<close>

definition isWhiteSpace :: "char \<Rightarrow> bool" where
  "isWhiteSpace c = ((of_char c :: nat) \<in> set [9, 10, 11, 12, 13, 32, 160])"

definition trimStart :: "string \<Rightarrow> string" where
  "trimStart s = dropWhile isWhiteSpace s"

definition trim :: "string \<Rightarrow> string" where
  "trim s = rev (dropWhile isWhiteSpace (rev (dropWhile isWhiteSpace s)))"

definition isDigit :: "char \<Rightarrow> bool" where
  "isDigit c = (48 \<le> (of_char c :: nat) \<and> (of_char c :: nat) \<le> 57)"

text \<open>The value of a digit in a radix up to 16, if it is one.\<close>

definition digit_in_radix :: "nat \<Rightarrow> char \<Rightarrow> nat option" where
  "digit_in_radix radix c =
     (let k = (of_char c :: nat);
          v = (if 48 \<le> k \<and> k \<le> 57 then Some (k - 48)
               else if 97 \<le> k \<and> k \<le> 102 then Some (k - 87)
               else if 65 \<le> k \<and> k \<le> 70 then Some (k - 55)
               else None)
      in case v of None \<Rightarrow> None | Some d \<Rightarrow> if d < radix then Some d else None)"

definition digits_value :: "nat \<Rightarrow> string \<Rightarrow> nat" where
  "digits_value radix s = foldl (\<lambda>a c. radix * a + (case digit_in_radix radix c of Some d \<Rightarrow> d | None \<Rightarrow> 0)) 0 s"

text \<open>An ExponentPart at the start of a string: its value and the rest of the string.\<close>

definition exponent_part :: "string \<Rightarrow> (int \<times> string) option" where
  "exponent_part s =
     (case s of
        [] \<Rightarrow> None
      | c # r \<Rightarrow>
          if c = CHR ''e'' \<or> c = CHR ''E'' then
            (let neg = (case r of d # _ \<Rightarrow> d = CHR ''-'' | [] \<Rightarrow> False);
                 r1 = (case r of d # r' \<Rightarrow> if d = CHR ''+'' \<or> d = CHR ''-'' then r' else r
                       | [] \<Rightarrow> r);
                 ds = takeWhile isDigit r1
             in if ds = [] then None
                else Some ((if neg then - 1 else 1) * int (digits_value 10 ds),
                           dropWhile isDigit r1))
          else None)"

definition pow10 :: "int \<Rightarrow> rat" where
  "pow10 e = (if 0 \<le> e then 10 ^ nat e else 1 / 10 ^ nat (- e))"

text \<open>
  The longest StrUnsignedDecimalLiteral (other than \<^verbatim>\<open>Infinity\<close>) at the start of a
  string: digits, a point, digits and an exponent, with a digit before or after the point.
\<close>

definition unsigned_decimal :: "string \<Rightarrow> (rat \<times> string) option" where
  "unsigned_decimal s =
     (let ip = takeWhile isDigit s;
          r1 = dropWhile isDigit s;
          dot = (case r1 of c # _ \<Rightarrow> c = CHR ''.'' | [] \<Rightarrow> False);
          fp = (if dot then takeWhile isDigit (tl r1) else []);
          r2 = (if dot then dropWhile isDigit (tl r1) else r1)
      in if ip = [] \<and> fp = [] then None
         else
           (let mant = of_nat (digits_value 10 ip) + of_nat (digits_value 10 fp) / 10 ^ length fp
            in case exponent_part r2 of
                 None \<Rightarrow> Some (mant, r2)
               | Some (e, r3) \<Rightarrow> Some (mant * pow10 e, r3)))"

text \<open>The longest StrDecimalLiteral at the start of a string.\<close>

definition str_decimal :: "string \<Rightarrow> (jsnum \<times> string) option" where
  "str_decimal s =
     (let neg = (case s of c # _ \<Rightarrow> c = CHR ''-'' | [] \<Rightarrow> False);
          r = (case s of c # r' \<Rightarrow> if c = CHR ''+'' \<or> c = CHR ''-'' then r' else s | [] \<Rightarrow> s)
      in if take 8 r = ''Infinity'' then Some (if neg then NInf else PInf, drop 8 r)
         else
           (case unsigned_decimal r of
              None \<Rightarrow> None
            | Some (v, r') \<Rightarrow> Some (Fin (if neg then - v else v), r')))"

definition parseFloat :: "string \<Rightarrow> jsnum" where
  "parseFloat s = (case str_decimal (trimStart s) of None \<Rightarrow> NaN | Some (v, _) \<Rightarrow> v)"

text \<open>A hexadecimal, octal or binary integer literal.\<close>

definition radix_literal :: "string \<Rightarrow> rat option" where
  "radix_literal s =
     (case s of
        z # c # ds \<Rightarrow>
          (let radix = (if c = CHR ''x'' \<or> c = CHR ''X'' then 16
                        else if c = CHR ''o'' \<or> c = CHR ''O'' then 8
                        else if c = CHR ''b'' \<or> c = CHR ''B'' then 2
                        else (0 :: nat))
           in if z = CHR ''0'' \<and> radix \<noteq> 0 \<and> ds \<noteq> []
                 \<and> list_all (\<lambda>d. digit_in_radix radix d \<noteq> None) ds
              then Some (of_nat (digits_value radix ds)) else None)
      | _ \<Rightarrow> None)"

text \<open>\<^verbatim>\<open>Number(s)\<close> for a String.\<close>

definition StringToNumber :: "string \<Rightarrow> jsnum" where
  "StringToNumber s =
     (let t = trim s
      in if t = [] then Fin 0
         else
           (case radix_literal t of
              Some v \<Rightarrow> Fin v
            | None \<Rightarrow> (case str_decimal t of Some (v, []) \<Rightarrow> v | _ \<Rightarrow> NaN)))"

subsection \<open>Number and truth of a JSON value\<close>

text \<open>
  Turning an object into a primitive value throws when the object has a property
  \<^verbatim>\<open>toString\<close> of its own (no value of JSON can be called); an array asks its elements.
\<close>

fun toPrimitive_throws :: "json \<Rightarrow> bool" where
  "toPrimitive_throws (JArr xs) = list_ex toPrimitive_throws xs"
| "toPrimitive_throws (JObj kvs) = (''toString'' \<in> set (map fst kvs))"
| "toPrimitive_throws _ = False"

text \<open>
  The Number read from the text of a value as \<^verbatim>\<open>Array.prototype.join\<close> writes it:
  \<^verbatim>\<open>null\<close> is the empty text, a Number reads back as itself, two elements or more
  give a comma, an object is \<^verbatim>\<open>[object Object]\<close>.
\<close>

fun text_number :: "json \<Rightarrow> jsnum" where
  "text_number JNull = Fin 0"
| "text_number (JBool b) = NaN"
| "text_number (JNum a) = Fin a"
| "text_number (JStr s) = StringToNumber s"
| "text_number (JArr []) = Fin 0"
| "text_number (JArr [x]) = text_number x"
| "text_number (JArr (x # y # zs)) = NaN"
| "text_number (JObj kvs) = NaN"

text \<open>\<^verbatim>\<open>Number(v)\<close>.\<close>

definition ToNumber :: "json \<Rightarrow> exn + jsnum" where
  "ToNumber v =
     (if toPrimitive_throws v then Inl TypeError
      else Inr (case v of JBool b \<Rightarrow> Fin (if b then 1 else 0) | _ \<Rightarrow> text_number v))"

fun ToBoolean :: "json option \<Rightarrow> bool" where
  "ToBoolean None = False"
| "ToBoolean (Some JNull) = False"
| "ToBoolean (Some (JBool b)) = b"
| "ToBoolean (Some (JNum a)) = (a \<noteq> 0)"
| "ToBoolean (Some (JStr s)) = (s \<noteq> [])"
| "ToBoolean (Some _) = True"

subsection \<open>The entry store\<close>

definition ensureDataFile :: "disk \<Rightarrow> disk" where
  "ensureDataFile fs =
     (if \<not> existsSync fs then writeFileSync (JSON_stringify (JArr [])) fs else fs)"

text \<open>The body of the \<^verbatim>\<open>try\<close> block of \<^verbatim>\<open>loadEntries\<close>, and the function with its \<^verbatim>\<open>catch\<close>.\<close>

definition loadEntries_try :: "disk \<Rightarrow> exn + json" where
  "loadEntries_try fs =
     (case readFileSync fs of
        Inl err \<Rightarrow> Inl err
      | Inr raw \<Rightarrow>
          (case JSON_parse raw of
             Inl err \<Rightarrow> Inl err
           | Inr parsed \<Rightarrow> Inr (if isArray parsed then parsed else JArr [])))"

definition loadEntries :: "disk \<Rightarrow> json" where
  "loadEntries fs = (case loadEntries_try fs of Inl err \<Rightarrow> JArr [] | Inr v \<Rightarrow> v)"

text \<open>
  \<^verbatim>\<open>entries.findIndex(p)\<close>: the index of the first element that satisfies \<open>p\<close>, or -1;
  an exception of \<open>p\<close> ends the search.
\<close>

fun findIndex :: "(json \<Rightarrow> exn + bool) \<Rightarrow> json list \<Rightarrow> int \<Rightarrow> exn + int" where
  "findIndex p [] i = Inr (- 1)"
| "findIndex p (e # es) i =
     (case p e of
        Inl err \<Rightarrow> Inl err
      | Inr True \<Rightarrow> Inr i
      | Inr False \<Rightarrow> findIndex p es (i + 1))"

text \<open>\<^verbatim>\<open>e.date === today\<close>.\<close>

definition date_is :: "string \<Rightarrow> json \<Rightarrow> exn + bool" where
  "date_is today e =
     (case getProp e ''date'' of Inl err \<Rightarrow> Inl err | Inr v \<Rightarrow> Inr (v = Some (JStr today)))"

text \<open>
  The entry \<^verbatim>\<open>{ date: today, amount }\<close>, and what \<^verbatim>\<open>JSON.stringify\<close> writes for it: an
  amount that is not finite is written as \<^verbatim>\<open>null\<close>.
\<close>

record entry =
  entry_date :: string
  entry_amount :: jsnum

definition entry_json :: "entry \<Rightarrow> json" where
  "entry_json e =
     JObj [(''date'', JStr (entry_date e)),
           (''amount'', case entry_amount e of Fin a \<Rightarrow> JNum a | _ \<Rightarrow> JNull)]"

text \<open>\<open>saveEntry now amount fs\<close>: \<open>now\<close> is the time value of \<^verbatim>\<open>new Date()\<close>.\<close>

definition saveEntry :: "int \<Rightarrow> jsnum \<Rightarrow> disk \<Rightarrow> exn + entry \<times> disk" where
  "saveEntry now amount fs =
     (case loadEntries fs of
        JArr entries \<Rightarrow>
          (let today = toDateString (TimeValue now)
           in case findIndex (date_is today) entries 0 of
                Inl err \<Rightarrow> Inl err
              | Inr existingIndex \<Rightarrow>
                  (let entry = \<lparr>entry_date = today, entry_amount = amount\<rparr>;
                       entries' = (if existingIndex \<ge> 0
                                   then entries[nat existingIndex := entry_json entry]
                                   else entries @ [entry_json entry])
                   in Inr (entry, writeFileSync (JSON_stringify (JArr entries')) fs)))
      | _ \<Rightarrow> Inl TypeError)"

text \<open>\<^verbatim>\<open>s.split('-')\<close>.\<close>

fun split_dash :: "string \<Rightarrow> string list" where
  "split_dash [] = [[]]"
| "split_dash (c # cs) =
     (if c = CHR ''-'' then [] # split_dash cs
      else (case split_dash cs of p # ps \<Rightarrow> (c # p) # ps | [] \<Rightarrow> [[c]]))"

text \<open>An element taken out of an array by a pattern: \<^verbatim>\<open>undefined\<close> when there is none.\<close>

definition element :: "jsnum list \<Rightarrow> nat \<Rightarrow> jsnum option" where
  "element xs i = (if i < length xs then Some (xs ! i) else None)"

text \<open>A Number or \<^verbatim>\<open>undefined\<close> as an operand of arithmetic and of \<^verbatim>\<open>new Date\<close>.\<close>

fun number_of :: "jsnum option \<Rightarrow> jsnum" where
  "number_of None = NaN"
| "number_of (Some a) = a"

text \<open>
  \<open>parseDateString\<close>: \<^verbatim>\<open>split\<close> is called on the argument, which throws unless the
  argument is a String.
\<close>

definition parseDateString :: "json option \<Rightarrow> exn + jsdate" where
  "parseDateString isoDate =
     (case isoDate of
        Some (JStr s) \<Rightarrow>
          (let nums = map StringToNumber (split_dash s);
               y = element nums 0; m = element nums 1; d = element nums 2
           in Inr (startOfDay
                     (Date_ymd (number_of y) (num_sub (number_of m) (Fin 1)) (number_of d))))
      | _ \<Rightarrow> Inl TypeError)"

text \<open>\<^verbatim>\<open>entries.filter(p)\<close> and \<^verbatim>\<open>entries.reduce(f, init)\<close> with callbacks that may throw.\<close>

fun filter_js :: "(json \<Rightarrow> exn + bool) \<Rightarrow> json list \<Rightarrow> exn + json list" where
  "filter_js p [] = Inr []"
| "filter_js p (e # es) =
     (case p e of
        Inl err \<Rightarrow> Inl err
      | Inr keep \<Rightarrow>
          (case filter_js p es of
             Inl err \<Rightarrow> Inl err
           | Inr kept \<Rightarrow> Inr (if keep then e # kept else kept)))"

fun reduce_js :: "(jsnum \<Rightarrow> json \<Rightarrow> exn + jsnum) \<Rightarrow> json list \<Rightarrow> jsnum \<Rightarrow> exn + jsnum" where
  "reduce_js f [] acc = Inr acc"
| "reduce_js f (e # es) acc =
     (case f acc e of Inl err \<Rightarrow> Inl err | Inr acc' \<Rightarrow> reduce_js f es acc')"

text \<open>
  The two callbacks of \<open>sumEntriesInRange\<close>; \<open>or_zero v\<close> is \<^verbatim>\<open>v || 0\<close>, and
  \<open>add_amount\<close> is \<^verbatim>\<open>sum + Number(e.amount || 0)\<close>.
\<close>

definition in_range :: "week_range \<Rightarrow> json \<Rightarrow> exn + bool" where
  "in_range rng e =
     (case getProp e ''date'' of
        Inl err \<Rightarrow> Inl err
      | Inr isoDate \<Rightarrow>
          (case parseDateString isoDate of
             Inl err \<Rightarrow> Inl err
           | Inr entryDate \<Rightarrow>
               Inr (num_le (date_value (range_start rng)) (date_value entryDate)
                    \<and> num_le (date_value entryDate) (date_value (range_end rng)))))"

definition or_zero :: "json option \<Rightarrow> json" where
  "or_zero v = (case v of None \<Rightarrow> JNum 0 | Some x \<Rightarrow> if ToBoolean v then x else JNum 0)"

definition add_amount :: "jsnum \<Rightarrow> json \<Rightarrow> exn + jsnum" where
  "add_amount acc e =
     (case getProp e ''amount'' of
        Inl err \<Rightarrow> Inl err
      | Inr amount \<Rightarrow>
          (case ToNumber (or_zero amount) of
             Inl err \<Rightarrow> Inl err
           | Inr a \<Rightarrow> Inr (num_add acc a)))"

definition sumEntriesInRange :: "json list \<Rightarrow> week_range \<Rightarrow> exn + jsnum" where
  "sumEntriesInRange entries rng =
     (case filter_js (in_range rng) entries of
        Inl err \<Rightarrow> Inl err
      | Inr kept \<Rightarrow> reduce_js add_amount kept (Fin 0))"

subsection \<open>Prompt and reports\<close>

text \<open>\<^verbatim>\<open>/^\d+$/.test(s)\<close>.\<close>

definition test_digits :: "string \<Rightarrow> bool" where
  "test_digits s = (s \<noteq> [] \<and> list_all isDigit s)"

definition question :: string where
  "question = ''How many litres did you use today? (whole number, e.g. 50): ''"

text \<open>\<open>promptForUsage answer\<close>: the promise is rejected (\<open>Inl\<close>) or resolved (\<open>Inr\<close>).\<close>

definition promptForUsage :: "string \<Rightarrow> exn + jsnum" where
  "promptForUsage answer =
     (let trimmed = trim answer
      in if \<not> test_digits trimmed
         then Inl (Error ''Please enter a whole number of litres, e.g. 42'')
         else (let amount = parseFloat trimmed in Inr amount))"

definition LOCAL_AVERAGE_LITRES :: jsnum where
  "LOCAL_AVERAGE_LITRES = Fin 150"

definition GLOBAL_AVERAGE_LITRES :: jsnum where
  "GLOBAL_AVERAGE_LITRES = Fin 173"

text \<open>The lines that \<open>printDailyComparison\<close> writes with \<^verbatim>\<open>console.log\<close>.\<close>

definition printDailyComparison :: "jsnum \<Rightarrow> string list" where
  "printDailyComparison amount =
     (let localDiff = percentDiff amount LOCAL_AVERAGE_LITRES;
          globalDiff = percentDiff amount GLOBAL_AVERAGE_LITRES
      in [CHR 0x0A # ''Today'' @ [CHR 0x27] @ ''s log saved.'',
          ''  You: '' @ toFixed1 amount @ '' L'',
          ''  Local average ('' @ Number_toString LOCAL_AVERAGE_LITRES @ '' L/day): ''
            @ formatDiff localDiff,
          ''  Global average ('' @ Number_toString GLOBAL_AVERAGE_LITRES @ '' L/day): ''
            @ formatDiff globalDiff])"

text \<open>
  The lines that \<open>maybePrintWeeklyChange\<close> writes, or the exception that it throws;
  \<open>now\<close> is the time value of \<^verbatim>\<open>new Date()\<close>. The change is computed as the program
  computes it, in doubles: the difference, the quotient and the product are each rounded.
\<close>

definition weekly_header :: string where
  "weekly_header = CHR 0x0A # ''Weekly change (last week vs week before):''"

definition maybePrintWeeklyChange :: "int \<Rightarrow> disk \<Rightarrow> exn + string list" where
  "maybePrintWeeklyChange now fs =
     (let today = startOfDay (TimeValue now)
      in if \<not> num_eq (getDay today) (Fin 1) then Inr []
         else
           (case loadEntries fs of
              JArr entries \<Rightarrow>
                (let lastWeekRange = getWeekRange today (Fin 1);
                     prevWeekRange = getWeekRange today (Fin 2)
                 in case sumEntriesInRange entries lastWeekRange of
                      Inl err \<Rightarrow> Inl err
                    | Inr lastWeekTotal \<Rightarrow>
                        (case sumEntriesInRange entries prevWeekRange of
                           Inl err \<Rightarrow> Inl err
                         | Inr prevWeekTotal \<Rightarrow>
                             if num_eq prevWeekTotal (Fin 0) \<and> num_eq lastWeekTotal (Fin 0)
                             then Inr [weekly_header, ''  No data for the past two weeks yet.'']
                             else if num_eq prevWeekTotal (Fin 0)
                             then Inr [weekly_header,
                                       ''  No data for the prior week to compare against.'']
                             else
                               (let change = Math_round
                                      (dbl_mul (dbl_div (dbl_sub lastWeekTotal prevWeekTotal)
                                                  prevWeekTotal) (Fin 100));
                                    direction =
                                      (if num_eq change (Fin 0) then ''no change''
                                       else if num_lt (Fin 0) change then ''increase''
                                       else ''decrease'')
                                in Inr [weekly_header,
                                        ''  Total last week: '' @ toFixed1 lastWeekTotal @ '' L'',
                                        ''  Total prior week: '' @ toFixed1 prevWeekTotal @ '' L'',
                                        ''  Change: '' @ Number_toString (Math_abs change)
                                          @ ''% '' @ direction])))
            | _ \<Rightarrow> Inl TypeError))"

subsection \<open>The program\<close>

text \<open>
  What a run leaves behind: the data file, the text written to standard output (the
  question and the lines of \<^verbatim>\<open>console.log\<close>), the exceptions reported on standard error
  as \<^verbatim>\<open>Error: <message>\<close>, and the exit code.
\<close>

record outcome =
  out_disk :: disk
  out_stdout :: "string list"
  out_stderr :: "exn list"
  out_exit :: int

text \<open>
  \<open>run answer now1 now2 fs\<close>: \<open>answer\<close> is the line read from standard input, \<open>now1\<close>
  and \<open>now2\<close> are the clock as \<open>saveEntry\<close> and \<open>maybePrintWeeklyChange\<close> read it. The
  \<^verbatim>\<open>catch\<close> handler takes a rejected prompt and any exception of the \<^verbatim>\<open>then\<close> handler.
\<close>

definition run :: "string \<Rightarrow> int \<Rightarrow> int \<Rightarrow> disk \<Rightarrow> outcome" where
  "run answer now1 now2 fs0 =
     (let fs1 = ensureDataFile fs0
      in case promptForUsage answer of
           Inl err \<Rightarrow>
             \<lparr>out_disk = fs1, out_stdout = [question], out_stderr = [err], out_exit = 1\<rparr>
         | Inr amount \<Rightarrow>
             (case saveEntry now1 amount fs1 of
                Inl err \<Rightarrow>
                  \<lparr>out_disk = fs1, out_stdout = [question], out_stderr = [err], out_exit = 1\<rparr>
              | Inr (entry, fs2) \<Rightarrow>
                  (let daily = printDailyComparison (entry_amount entry)
                   in case maybePrintWeeklyChange now2 fs2 of
                        Inl err \<Rightarrow>
                          \<lparr>out_disk = fs2, out_stdout = question # daily,
                           out_stderr = [err], out_exit = 1\<rparr>
                      | Inr weekly \<Rightarrow>
                          \<lparr>out_disk = fs2, out_stdout = question # daily @ weekly,
                           out_stderr = [], out_exit = 0\<rparr>)))"

section \<open>Properties\<close>

subsection \<open>Vocabulary\<close>

text \<open>The date of a record: the String under \<^verbatim>\<open>date\<close> of an object.\<close>

fun date_of :: "json \<Rightarrow> string option" where
  "date_of (JObj kvs) = (case map_of kvs ''date'' of Some (JStr s) \<Rightarrow> Some s | _ \<Rightarrow> None)"
| "date_of _ = None"

fun first_with_date :: "string \<Rightarrow> json list \<Rightarrow> nat option" where
  "first_with_date t [] = None"
| "first_with_date t (e # es) =
     (if date_of e = Some t then Some 0 else map_option Suc (first_with_date t es))"

text \<open>What \<open>saveEntry\<close> makes of the list: the first record of the date replaced, or the new record appended.\<close>

fun upsert :: "string \<Rightarrow> json \<Rightarrow> json list \<Rightarrow> json list" where
  "upsert t x [] = [x]"
| "upsert t x (e # es) = (if date_of e = Some t then x # es else e # upsert t x es)"

text \<open>A usage record, and the scenario of the specification: two records, and a Monday morning (15 January 2024, 9:30).\<close>

definition usage_record :: "string \<Rightarrow> rat \<Rightarrow> json" where
  "usage_record d a = JObj [(''date'', JStr d), (''amount'', JNum a)]"

definition scenario_entries :: "json list" where
  "scenario_entries = [usage_record ''2024-01-01'' 40, usage_record ''2024-01-08'' 50]"

definition scenario_disk :: disk where
  "scenario_disk = Some (Encodes (JArr scenario_entries))"

definition scenario_now :: int where
  "scenario_now = 19737 * msPerDay + 34200000"

text \<open>The day numbers that a range covers, from its start to its end.\<close>

definition range_days :: "week_range \<Rightarrow> int list" where
  "range_days r =
     (case (range_start r, range_end r) of
        (TimeValue s, TimeValue e) \<Rightarrow> [Day s .. Day e]
      | _ \<Rightarrow> [])"







text \<open>
  The change of the weekly report: \<open>(last - prev) / prev * 100\<close> in double arithmetic,
  rounded to a whole number; and its label, a change that is NaN being a decrease.
\<close>

definition weekly_change :: "jsnum \<Rightarrow> jsnum \<Rightarrow> jsnum" where
  "weekly_change lastWeekTotal prevWeekTotal =
     Math_round (dbl_mul (dbl_div (dbl_sub lastWeekTotal prevWeekTotal) prevWeekTotal) (Fin 100))"

definition change_label :: "jsnum \<Rightarrow> string" where
  "change_label change =
     (if num_lt (Fin 0) change then ''increase''
      else if num_lt change (Fin 0) then ''decrease''
      else if change = Fin 0 then ''no change''
      else ''decrease'')"

text \<open>The weekly report for the two sums, whatever Numbers they are.\<close>

definition weekly_report :: "jsnum \<Rightarrow> jsnum \<Rightarrow> string list" where
  "weekly_report lastWeekTotal prevWeekTotal =
     (if lastWeekTotal = Fin 0 \<and> prevWeekTotal = Fin 0
      then [weekly_header, ''  No data for the past two weeks yet.'']
      else if prevWeekTotal = Fin 0
      then [weekly_header, ''  No data for the prior week to compare against.'']
      else [weekly_header,
            ''  Total last week: '' @ toFixed1 lastWeekTotal @ '' L'',
            ''  Total prior week: '' @ toFixed1 prevWeekTotal @ '' L'',
            ''  Change: '' @ Number_toString (Math_abs (weekly_change lastWeekTotal prevWeekTotal))
              @ ''% '' @ change_label (weekly_change lastWeekTotal prevWeekTotal)])"

text \<open>
  The weekly report in the words of the specification, for two sums that are numbers;
  the quotient and the product are the doubles that the program computes.
\<close>

definition numeric_report :: "rat \<Rightarrow> rat \<Rightarrow> string list" where
  "numeric_report lastWeekTotal prevWeekTotal =
     (if lastWeekTotal = 0 \<and> prevWeekTotal = 0
      then [weekly_header, ''  No data for the past two weeks yet.'']
      else if prevWeekTotal = 0
      then [weekly_header, ''  No data for the prior week to compare against.'']
      else
        (let change = round_half_up
               (double_of (double_of (double_of (lastWeekTotal - prevWeekTotal) / prevWeekTotal)
                  * 100));
             label = (if change > 0 then ''increase''
                      else if change < 0 then ''decrease''
                      else ''no change'')
         in [weekly_header,
             ''  Total last week: '' @ toFixed1 (Fin lastWeekTotal) @ '' L'',
             ''  Total prior week: '' @ toFixed1 (Fin prevWeekTotal) @ '' L'',
             ''  Change: '' @ nat_digits (nat \<bar>change\<bar>) @ ''% '' @ label]))"

text \<open>
  Two more stores for the Monday of the scenario: totals of 63 and 40 litres, and a
  record of last week with the amount \<^verbatim>\<open>"abc"\<close>.
\<close>

definition rounding_entries :: "json list" where
  "rounding_entries = [usage_record ''2024-01-01'' 40, usage_record ''2024-01-08'' 63]"

definition nan_entries :: "json list" where
  "nan_entries =
     [usage_record ''2024-01-01'' 40,
      JObj [(''date'', JStr ''2024-01-08''), (''amount'', JStr ''abc'')]]"



definition last_week :: week_range where
  "last_week = \<lparr>range_start = TimeValue 1704672000000, range_end = TimeValue 1705190400000\<rparr>"

definition prev_week :: week_range where
  "prev_week = \<lparr>range_start = TimeValue 1704067200000, range_end = TimeValue 1704585600000\<rparr>"

subsection \<open>Digits\<close>

lemma isDigit_digit_char: "d < 10 \<Longrightarrow> isDigit (digit_char d)"
  by (simp add: isDigit_def digit_char_def)

lemma nat_digits_all_digits: "list_all isDigit (nat_digits n)"
proof (induction n rule: nat_digits.induct)
  case (1 n)
  show ?case
  proof (cases "n < 10")
    case True
    then show ?thesis
      by (subst nat_digits.simps) (simp add: isDigit_digit_char)
  next
    case False
    with "1" show ?thesis
      by (subst nat_digits.simps) (simp add: isDigit_digit_char)
  qed
qed

lemma nat_digits_nonempty: "nat_digits n \<noteq> []"
  by (subst nat_digits.simps) simp

lemma nat_digits_0: "nat_digits 0 = ''0''"
  by code_simp

subsection \<open>The entry store\<close>

lemma date_is_Inr: "date_is t e = Inr b \<Longrightarrow> b = (date_of e = Some t)"
  by (cases e) (auto simp: date_is_def split: option.splits json.splits)

lemma date_is_not_null: "e \<noteq> JNull \<Longrightarrow> date_is t e = Inr (date_of e = Some t)"
  by (cases e) (auto simp: date_is_def split: option.splits json.splits)

lemma findIndex_Inr:
  "findIndex (date_is t) es k = Inr i \<Longrightarrow>
   i = (case first_with_date t es of None \<Rightarrow> - 1 | Some j \<Rightarrow> k + int j)"
proof (induction es arbitrary: k)
  case Nil
  then show ?case by simp
next
  case (Cons e es)
  show ?case
  proof (cases "date_is t e")
    case (Inl err)
    with Cons.prems show ?thesis by simp
  next
    case (Inr b)
    note b = date_is_Inr [OF Inr]
    show ?thesis
    proof (cases b)
      case True
      with Inr Cons.prems b show ?thesis by simp
    next
      case False
      with Inr Cons.prems have "findIndex (date_is t) es (k + 1) = Inr i" by simp
      from Cons.IH [OF this] False b show ?thesis
        by (simp split: option.splits)
    qed
  qed
qed

lemma findIndex_total:
  "JNull \<notin> set es \<Longrightarrow> \<exists>i. findIndex (date_is t) es k = Inr i"
proof (induction es arbitrary: k)
  case Nil
  then show ?case by simp
next
  case (Cons e es)
  from Cons.prems have "e \<noteq> JNull" by auto
  then have "date_is t e = Inr (date_of e = Some t)"
    by (rule date_is_not_null)
  with Cons show ?case by (cases "date_of e = Some t") simp_all
qed

lemma first_with_date_Some:
  "first_with_date t es = Some j \<Longrightarrow>
   j < length es \<and> date_of (es ! j) = Some t \<and> (\<forall>i<j. date_of (es ! i) \<noteq> Some t)"
proof (induction es arbitrary: j)
  case Nil
  then show ?case by simp
next
  case (Cons e es)
  show ?case
  proof (cases "date_of e = Some t")
    case True
    with Cons.prems show ?thesis by simp
  next
    case False
    with Cons.prems obtain j' where j': "first_with_date t es = Some j'" "j = Suc j'"
      by auto
    from Cons.IH [OF j'(1)] False j'(2) show ?thesis
      by (auto simp: nth_Cons split: nat.splits)
  qed
qed

lemma first_with_date_None:
  "first_with_date t es = None \<Longrightarrow> \<forall>e\<in>set es. date_of e \<noteq> Some t"
  by (induction es) (auto split: if_splits)

lemma upsert_first:
  "(case first_with_date t es of None \<Rightarrow> es @ [x] | Some j \<Rightarrow> es[j := x]) = upsert t x es"
  by (induction es) (auto split: option.splits)

lemma upsert_cases:
  "(\<exists>j<length es. date_of (es ! j) = Some t \<and> (\<forall>i<j. date_of (es ! i) \<noteq> Some t)
       \<and> upsert t x es = es[j := x])
   \<or> ((\<forall>e\<in>set es. date_of e \<noteq> Some t) \<and> upsert t x es = es @ [x])"
proof (cases "first_with_date t es")
  case None
  with first_with_date_None [OF None] upsert_first [where t = t and es = es and x = x] show ?thesis
    by simp
next
  case (Some j)
  with first_with_date_Some [OF Some] upsert_first [where t = t and es = es and x = x] show ?thesis
    by auto
qed

lemma upsert_frame:
  "i < length es \<Longrightarrow> date_of (es ! i) \<noteq> Some t \<Longrightarrow> upsert t x es ! i = es ! i"
  by (induction es arbitrary: i) (auto simp: nth_Cons split: nat.splits)

lemma upsert_idem: "date_of x = Some t \<Longrightarrow> upsert t x (upsert t x es) = upsert t x es"
  by (induction es) auto

lemma upsert_dates:
  "date_of x = Some t \<Longrightarrow> set (map date_of (upsert t x es)) = insert (Some t) (set (map date_of es))"
  by (induction es) auto

lemma upsert_distinct:
  "date_of x = Some t \<Longrightarrow> distinct (map date_of es) \<Longrightarrow> distinct (map date_of (upsert t x es))"
proof (induction es)
  case Nil
  then show ?case by simp
next
  case (Cons e es)
  show ?case
  proof (cases "date_of e = Some t")
    case True
    with Cons.prems show ?thesis by simp
  next
    case False
    from Cons have "distinct (map date_of (upsert t x es))" by simp
    moreover from Cons.prems False upsert_dates [OF Cons.prems(1), of es]
    have "date_of e \<notin> set (map date_of (upsert t x es))" by auto
    ultimately show ?thesis using False by simp
  qed
qed

lemma upsert_filter:
  "date_of x = Some t \<Longrightarrow> distinct (map date_of es) \<Longrightarrow>
   filter (\<lambda>e. date_of e = Some t) (upsert t x es) = [x]"
proof (induction es)
  case Nil
  then show ?case by simp
next
  case (Cons e es)
  show ?case
  proof (cases "date_of e = Some t")
    case True
    with Cons.prems have "\<forall>e'\<in>set es. date_of e' \<noteq> Some t" by force
    then have "filter (\<lambda>e. date_of e = Some t) es = []" by (simp add: filter_empty_conv)
    with True Cons.prems(1) show ?thesis by simp
  next
    case False
    with Cons show ?thesis by simp
  qed
qed

lemma upsert_no_null: "x \<noteq> JNull \<Longrightarrow> JNull \<notin> set es \<Longrightarrow> JNull \<notin> set (upsert t x es)"
  by (induction es) auto

lemma loadEntries_array: "loadEntries (Some (Encodes (JArr es))) = JArr es"
  by (simp add: loadEntries_def loadEntries_try_def readFileSync_def JSON_parse_def)

lemma saveEntry_Inr:
  assumes "loadEntries fs = JArr es" and "saveEntry now a fs = Inr (entry, fs')"
  shows "entry = \<lparr>entry_date = toDateString (TimeValue now), entry_amount = a\<rparr>
         \<and> fs' = Some (Encodes (JArr (upsert (entry_date entry) (entry_json entry) es)))"
proof -
  let ?t = "toDateString (TimeValue now)"
  from assms obtain i where i: "findIndex (date_is ?t) es 0 = Inr i"
    by (auto simp: saveEntry_def Let_def split: sum.splits)
  from findIndex_Inr [OF i]
  have i_eq: "i = (case first_with_date ?t es of None \<Rightarrow> - 1 | Some j \<Rightarrow> int j)"
    by (simp split: option.splits)
  let ?x = "entry_json \<lparr>entry_date = ?t, entry_amount = a\<rparr>"
  have "(if i \<ge> 0 then es[nat i := ?x] else es @ [?x]) = upsert ?t ?x es"
    using i_eq upsert_first [where t = ?t and es = es and x = ?x] by (auto split: option.splits)
  with assms i show ?thesis
    by (auto simp: saveEntry_def Let_def writeFileSync_def JSON_stringify_def)
qed

lemma saveEntry_total:
  assumes "loadEntries fs = JArr es" and "JNull \<notin> set es"
  shows "\<exists>entry fs'. saveEntry now a fs = Inr (entry, fs')"
proof -
  from findIndex_total [OF assms(2)]
  obtain i where "findIndex (date_is (toDateString (TimeValue now))) es 0 = Inr i"
    by blast
  with assms(1) show ?thesis
    by (simp add: saveEntry_def Let_def)
qed

lemma date_of_entry_json: "date_of (entry_json e) = Some (entry_date e)"
  by (simp add: entry_json_def)

lemma scenario_today: "toDateString (TimeValue scenario_now) = ''2024-01-15''"
  by code_simp

lemma scenario_load: "loadEntries scenario_disk = JArr scenario_entries"
  by (simp add: scenario_disk_def loadEntries_array)

subsection \<open>Dates and week ranges\<close>

lemma MonthFromTime_range: "0 \<le> MonthFromTime t \<and> MonthFromTime t < 12"
  by (simp add: MonthFromTime_def Let_def)

lemma trunc_of_int: "trunc (of_int k) = k"
  by (simp add: trunc_def)

lemma MakeDay_own_month:
  "MakeDay (YearFromTime t) (MonthFromTime t) d = Day t + (d - DateFromTime t)"
proof -
  from MonthFromTime_range [of t]
  have "MonthFromTime t div 12 = 0" and "MonthFromTime t mod 12 = MonthFromTime t"
    by simp_all
  then show ?thesis
    by (simp add: MakeDay_def DateFromTime_def DayWithinYear_def InLeapYear_def Let_def)
qed

lemma MakeDate_Day: "MakeDate (Day t + k) (TimeWithinDay t) = t + k * msPerDay"
  by (simp add: MakeDate_def Day_def TimeWithinDay_def algebra_simps)

lemma setDate_getDate:
  "setDate (TimeValue t) (Fin (of_int (DateFromTime t + k))) = TimeValue (t + k * msPerDay)"
proof -
  have "MakeDay (YearFromTime t) (MonthFromTime t) (DateFromTime t + k) = Day t + k"
    by (simp add: MakeDay_own_month)
  then show ?thesis
    by (simp only: setDate.simps trunc_of_int MakeDate_Day)
qed

lemma startOfDay_TimeValue: "startOfDay (TimeValue t) = TimeValue (Day t * msPerDay)"
  by (simp add: startOfDay_def MakeDate_def)

lemma msPerDay_pos: "0 < msPerDay"
  by (simp add: msPerDay_def)

lemma Day_midnight: "Day (d * msPerDay + k * msPerDay) = d + k"
proof -
  have "d * msPerDay + k * msPerDay = (d + k) * msPerDay"
    by (simp add: distrib_right)
  with msPerDay_pos show ?thesis
    by (simp add: Day_def)
qed

lemma getWeekRange_int:
  "getWeekRange (TimeValue t) (Fin (of_int w)) =
     \<lparr>range_start = TimeValue (Day t * msPerDay - (7 * w) * msPerDay),
      range_end = TimeValue (Day t * msPerDay - (7 * w - 6) * msPerDay)\<rparr>"
proof -
  let ?m = "Day t * msPerDay"
  have a: "num_sub (num_sub (getDate (TimeValue ?m)) (Fin 1))
             (num_mul (Fin 7) (num_sub (Fin (of_int w)) (Fin 1)))
           = Fin (of_int (DateFromTime ?m + (6 - 7 * w)))"
    by (simp add: num_sub_def algebra_simps)
  have e: "setDate (TimeValue ?m) (Fin (of_int (DateFromTime ?m + (6 - 7 * w))))
           = TimeValue (?m + (6 - 7 * w) * msPerDay)"
    by (rule setDate_getDate)
  let ?e = "?m + (6 - 7 * w) * msPerDay"
  have d: "Day ?e * msPerDay = ?e"
    by (simp only: Day_midnight distrib_right)
  have b: "num_sub (getDate (TimeValue ?e)) (Fin 6) = Fin (of_int (DateFromTime ?e + (- 6)))"
    by (simp add: num_sub_def)
  have s: "setDate (TimeValue ?e) (Fin (of_int (DateFromTime ?e + (- 6))))
           = TimeValue (?e + (- 6) * msPerDay)"
    by (rule setDate_getDate)
  show ?thesis
    unfolding getWeekRange_def Let_def startOfDay_TimeValue a e d b s
    by (simp add: algebra_simps)
qed

lemma Day_shift: "Day (Day t * msPerDay - k * msPerDay) = Day t - k"
  using Day_midnight [of "Day t" "- k"] by simp

lemma Day_shift1: "Day (Day t * msPerDay - msPerDay) = Day t - 1"
  using Day_shift [of t 1] by simp

lemma getDay_Fin: "getDay today = Fin a \<Longrightarrow> \<exists>t. today = TimeValue t \<and> a = of_int (WeekDay t)"
  by (cases today) simp_all

subsection \<open>The prompt\<close>

lemma isDigit_not_space: "isDigit c \<Longrightarrow> \<not> isWhiteSpace c"
  by (auto simp: isDigit_def isWhiteSpace_def)

lemma isDigit_not_sign: "isDigit c \<Longrightarrow> c \<noteq> CHR ''+'' \<and> c \<noteq> CHR ''-'' \<and> c \<noteq> CHR ''I''"
  by (auto simp: isDigit_def)

lemma takeWhile_all: "list_all P xs \<Longrightarrow> takeWhile P xs = xs \<and> dropWhile P xs = []"
  by (induction xs) simp_all

lemma unsigned_decimal_digits:
  assumes "s \<noteq> []" and "list_all isDigit s"
  shows "unsigned_decimal s = Some (of_nat (digits_value 10 s), [])"
proof -
  from takeWhile_all [OF assms(2)]
  have tw: "takeWhile isDigit s = s" and dw: "dropWhile isDigit s = []"
    by simp_all
  have z: "digits_value 10 [] = 0"
    by (simp add: digits_value_def)
  show ?thesis
    unfolding unsigned_decimal_def Let_def tw dw
    by (simp add: exponent_part_def assms(1) z)
qed

lemma str_decimal_digits:
  assumes "s \<noteq> []" and "list_all isDigit s"
  shows "str_decimal s = Some (Fin (of_nat (digits_value 10 s)), [])"
proof -
  from assms obtain c cs where s: "s = c # cs" and c: "isDigit c"
    by (cases s) auto
  from isDigit_not_sign [OF c] have "take 8 s \<noteq> ''Infinity''"
    by (auto simp: s)
  with isDigit_not_sign [OF c] unsigned_decimal_digits [OF assms] show ?thesis
    by (simp add: str_decimal_def s)
qed

lemma parseFloat_digits:
  assumes "s \<noteq> []" and "list_all isDigit s"
  shows "parseFloat s = Fin (of_nat (digits_value 10 s))"
proof -
  from assms obtain c cs where s: "s = c # cs" and c: "isDigit c"
    by (cases s) auto
  from isDigit_not_space [OF c] have "trimStart s = s"
    by (simp add: trimStart_def s)
  with str_decimal_digits [OF assms] show ?thesis
    by (simp add: parseFloat_def)
qed

lemma digit_in_radix_digit_char: "d < 10 \<Longrightarrow> digit_in_radix 10 (digit_char d) = Some d"
  by (simp add: digit_in_radix_def digit_char_def Let_def)

lemma digits_value_snoc:
  "digits_value r (s @ [c]) = r * digits_value r s + (case digit_in_radix r c of Some d \<Rightarrow> d | None \<Rightarrow> 0)"
  by (simp add: digits_value_def)

lemma digits_value_nat_digits: "digits_value 10 (nat_digits n) = n"
proof (induction n rule: nat_digits.induct)
  case (1 n)
  show ?case
  proof (cases "n < 10")
    case True
    then show ?thesis
      by (subst nat_digits.simps) (simp add: digits_value_def digit_in_radix_digit_char)
  next
    case False
    with "1" show ?thesis
      by (subst nat_digits.simps) (simp add: digits_value_snoc digit_in_radix_digit_char)
  qed
qed

lemma trim_digits: "s \<noteq> [] \<Longrightarrow> list_all isDigit s \<Longrightarrow> trim s = s"
proof -
  assume a: "s \<noteq> []" "list_all isDigit s"
  then obtain c cs where s: "s = c # cs" and c: "isDigit c"
    by (cases s) auto
  from a have "isDigit (last s)"
    by (simp add: list_all_iff)
  then have l: "\<not> isWhiteSpace (last s)"
    by (rule isDigit_not_space)
  from a have "rev s \<noteq> []" by simp
  then obtain d ds where r: "rev s = d # ds"
    by (cases "rev s") auto
  with a have "d = last s"
    by (metis last_rev list.sel(1) rev_rev_ident hd_rev)
  with l have "dropWhile isWhiteSpace (d # ds) = d # ds"
    by simp
  then have "dropWhile isWhiteSpace (rev s) = rev s"
    unfolding r .
  moreover from isDigit_not_space [OF c] have "dropWhile isWhiteSpace s = s"
    by (simp add: s)
  ultimately show "trim s = s"
    by (simp add: trim_def)
qed

lemma isDigit_set: "isDigit c \<longleftrightarrow> c \<in> set ''0123456789''"
proof
  assume "c \<in> set ''0123456789''"
  then show "isDigit c"
    by (auto simp: isDigit_def)
next
  assume "isDigit c"
  then have "48 \<le> (of_char c :: nat) \<and> (of_char c :: nat) \<le> 57"
    by (simp add: isDigit_def)
  then have "(of_char c :: nat) \<in> set [48, 49, 50, 51, 52, 53, 54, 55, 56, 57]"
    unfolding list.set insert_iff empty_iff by arith
  then have "char_of (of_char c :: nat) \<in> char_of ` set [48, 49, 50, 51, 52, 53, 54, 55, 56, 57 :: nat]"
    by (rule imageI)
  also have "char_of ` set [48, 49, 50, 51, 52, 53, 54, 55, 56, 57 :: nat] = set ''0123456789''"
    by code_simp
  finally show "c \<in> set ''0123456789''"
    by simp
qed

lemma test_digits_set: "test_digits s \<longleftrightarrow> s \<noteq> [] \<and> set s \<subseteq> set ''0123456789''"
  unfolding test_digits_def list_all_iff using isDigit_set by blast

lemma promptForUsage_cases:
  "promptForUsage answer =
     (if test_digits (trim answer) then Inr (Fin (of_nat (digits_value 10 (trim answer))))
      else Inl (Error ''Please enter a whole number of litres, e.g. 42''))"
  by (simp add: promptForUsage_def Let_def parseFloat_digits test_digits_def)

lemma loadEntries_ensureDataFile: "loadEntries (ensureDataFile fs) = loadEntries fs"
  by (cases fs)
     (simp_all add: ensureDataFile_def existsSync_def writeFileSync_def JSON_stringify_def
        loadEntries_def loadEntries_try_def readFileSync_def JSON_parse_def)

subsection \<open>Sums and the weekly report\<close>






lemma scenario_monday: "getDay (startOfDay (TimeValue scenario_now)) = Fin 1"
  by code_simp

lemma scenario_last_week:
  "getWeekRange (startOfDay (TimeValue scenario_now)) (Fin 1) = last_week"
  by code_simp

lemma scenario_prev_week:
  "getWeekRange (startOfDay (TimeValue scenario_now)) (Fin 2) = prev_week"
  by code_simp

lemmas number_text_defs = StringToNumber_def trim_def isWhiteSpace_def radix_literal_def
  str_decimal_def unsigned_decimal_def isDigit_def digits_value_def digit_in_radix_def
  exponent_part_def Let_def

lemmas date_defs = trunc_def MakeDay_def MakeDate_def DayFromYear_def monthStart_def leapDays_def
  DaysInYear_def msPerDay_def startOfDay_def Day_def num_sub_def

lemma parse_jan_01: "parseDateString (Some (JStr ''2024-01-01'')) = Inr (TimeValue 1704067200000)"
  by (simp add: parseDateString_def element_def number_text_defs date_defs)

lemma parse_jan_08: "parseDateString (Some (JStr ''2024-01-08'')) = Inr (TimeValue 1704672000000)"
  by (simp add: parseDateString_def element_def number_text_defs date_defs)

lemma parse_jan_09: "parseDateString (Some (JStr ''2024-01-09'')) = Inr (TimeValue 1704758400000)"
  by (simp add: parseDateString_def element_def number_text_defs date_defs)

lemmas scenario_parse = parse_jan_01 parse_jan_08 parse_jan_09

lemma abc_NaN: "StringToNumber ''abc'' = NaN"
  by (simp add: number_text_defs)



lemma scenario_sum_last: "sumEntriesInRange scenario_entries last_week = Inr (Fin 50)"
  by (simp add: sumEntriesInRange_def scenario_entries_def usage_record_def in_range_def
      scenario_parse last_week_def num_le_def add_amount_def or_zero_def ToNumber_def)

lemma scenario_sum_prev: "sumEntriesInRange scenario_entries prev_week = Inr (Fin 40)"
  by (simp add: sumEntriesInRange_def scenario_entries_def usage_record_def in_range_def
      scenario_parse prev_week_def num_le_def add_amount_def or_zero_def ToNumber_def)


lemma rounding_sum_last: "sumEntriesInRange rounding_entries last_week = Inr (Fin 63)"
  by (simp add: sumEntriesInRange_def rounding_entries_def usage_record_def in_range_def
      scenario_parse last_week_def num_le_def add_amount_def or_zero_def ToNumber_def)

lemma rounding_sum_prev: "sumEntriesInRange rounding_entries prev_week = Inr (Fin 40)"
  by (simp add: sumEntriesInRange_def rounding_entries_def usage_record_def in_range_def
      scenario_parse prev_week_def num_le_def add_amount_def or_zero_def ToNumber_def)

lemma nan_sum_last: "sumEntriesInRange nan_entries last_week = Inr NaN"
  by (simp add: sumEntriesInRange_def nan_entries_def usage_record_def in_range_def
      scenario_parse last_week_def num_le_def add_amount_def or_zero_def ToNumber_def abc_NaN)

lemma nan_sum_prev: "sumEntriesInRange nan_entries prev_week = Inr (Fin 40)"
  by (simp add: sumEntriesInRange_def nan_entries_def usage_record_def in_range_def
      scenario_parse prev_week_def num_le_def add_amount_def or_zero_def ToNumber_def abc_NaN)

lemma direction_label:
  "(if change = Fin 0 then ''no change''
    else if num_lt (Fin 0) change then ''increase''
    else ''decrease'') = change_label change"
  by (cases change) (auto simp: change_label_def)

lemma num_eq_zero: "num_eq a (Fin 0) \<longleftrightarrow> a = Fin 0"
  by (auto simp: num_eq_def)

lemma num_eq_Fin: "num_eq (Fin a) (Fin b) \<longleftrightarrow> a = b"
  by (simp add: num_eq_def)

lemma weekly_change_numbers:
  "p \<noteq> 0 \<Longrightarrow>
   weekly_change (Fin l) (Fin p) =
     Fin (of_int (round_half_up (double_of (double_of (double_of (l - p) / p) * 100))))"
  by (simp add: weekly_change_def dbl_sub_def dbl_div_def dbl_mul_def num_sub_def)

lemma change_label_int:
  "change_label (Fin (of_int c)) =
     (if c > 0 then ''increase'' else if c < 0 then ''decrease'' else ''no change'')"
  by (simp add: change_label_def)

lemma abs_text_int: "Number_toString (Math_abs (Fin (of_int c))) = nat_digits (nat \<bar>c\<bar>)"
proof -
  have "\<lfloor>\<bar>(of_int c :: rat)\<bar>\<rfloor> = \<bar>c\<bar>"
    by (simp flip: of_int_abs)
  then show ?thesis
    by (simp add: int_toString_def)
qed

lemma weekly_report_numbers: "weekly_report (Fin l) (Fin p) = numeric_report l p"
proof (cases "p = 0")
  case True
  then show ?thesis
    by (simp add: weekly_report_def numeric_report_def)
next
  case False
  then show ?thesis
    unfolding weekly_report_def numeric_report_def Let_def weekly_change_numbers [OF False]
      change_label_int abs_text_int
    by simp
qed

lemma weekly_report_Monday:
  assumes "getDay (startOfDay (TimeValue now)) = Fin 1" and "loadEntries fs = JArr es"
  shows "maybePrintWeeklyChange now fs =
     (case sumEntriesInRange es (getWeekRange (startOfDay (TimeValue now)) (Fin 1)) of
        Inl err \<Rightarrow> Inl err
      | Inr l \<Rightarrow>
          (case sumEntriesInRange es (getWeekRange (startOfDay (TimeValue now)) (Fin 2)) of
             Inl err \<Rightarrow> Inl err
           | Inr p \<Rightarrow> Inr (weekly_report l p)))"
proof (cases "sumEntriesInRange es (getWeekRange (startOfDay (TimeValue now)) (Fin 1))")
  case (Inl err)
  with assms show ?thesis
    by (simp add: maybePrintWeeklyChange_def Let_def num_eq_zero num_eq_Fin)
next
  case l: (Inr l)
  show ?thesis
  proof (cases "sumEntriesInRange es (getWeekRange (startOfDay (TimeValue now)) (Fin 2))")
    case (Inl err)
    with assms l show ?thesis
      by (simp add: maybePrintWeeklyChange_def Let_def num_eq_zero num_eq_Fin)
  next
    case p: (Inr p)
    with assms l show ?thesis
      by (simp add: maybePrintWeeklyChange_def Let_def num_eq_zero num_eq_Fin direction_label
          weekly_report_def weekly_change_def)
  qed
qed

lemma change_63_40: "weekly_change (Fin 63) (Fin 40) = Fin 57"
  by code_simp

lemma change_50_40: "weekly_change (Fin 50) (Fin 40) = Fin 25"
  by code_simp

lemma fixed_totals:
  "toFixed1 (Fin 63) = ''63.0''" "toFixed1 (Fin 50) = ''50.0''" "toFixed1 (Fin 40) = ''40.0''"
  "toFixed1 NaN = ''NaN''"
  by code_simp+

lemma change_texts:
  "Number_toString (Math_abs (Fin 57)) = ''57''" "Number_toString (Math_abs (Fin 25)) = ''25''"
  "Number_toString (Math_abs NaN) = ''NaN''"
  by code_simp+

lemma change_labels:
  "change_label (Fin 57) = ''increase''" "change_label (Fin 25) = ''increase''"
  "change_label NaN = ''decrease''"
  by (simp_all add: change_label_def)

lemma change_NaN_40: "weekly_change NaN (Fin 40) = NaN"
  by (simp add: weekly_change_def dbl_sub_def dbl_div_def dbl_mul_def num_sub_def)

lemma report_63_40: "weekly_report (Fin 63) (Fin 40) =
      [weekly_header, ''  Total last week: 63.0 L'', ''  Total prior week: 40.0 L'',
       ''  Change: 57% increase'']"
  unfolding weekly_report_def change_63_40 fixed_totals change_texts change_labels
  by simp

lemma report_50_40: "weekly_report (Fin 50) (Fin 40) =
      [weekly_header, ''  Total last week: 50.0 L'', ''  Total prior week: 40.0 L'',
       ''  Change: 25% increase'']"
  unfolding weekly_report_def change_50_40 fixed_totals change_texts change_labels
  by simp

lemma report_NaN_40: "weekly_report NaN (Fin 40) =
      [weekly_header, ''  Total last week: NaN L'', ''  Total prior week: 40.0 L'',
       ''  Change: NaN% decrease'']"
  unfolding weekly_report_def change_NaN_40 fixed_totals change_texts change_labels
  by simp

subsection \<open>The claims\<close>


text \<open>
  C8. The baseline comparison shows the percentage difference rounded to the nearest
  whole percent: \<open>+\<close> and the digits when the rounded value is positive, \<open>-\<close> and the
  digits when it is negative, and \<open>0\<close> without a sign when it is zero. An amount of 45
  against the baseline 150 is shown as \<open>-70% vs baseline\<close>, an amount of 150 against
  the baseline 150 as \<open>0% vs baseline\<close>.
\<close>

theorem formatDiff_spec:
  "formatDiff (Fin d) =
     (if 0 < round_half_up d then ''+'' @ nat_digits (nat (round_half_up d))
      else if round_half_up d < 0 then ''-'' @ nat_digits (nat (- round_half_up d))
      else ''0'') @ ''% vs baseline''
   \<and> \<bar>of_int (round_half_up d) - d\<bar> \<le> 1 / 2
   \<and> list_all isDigit (nat_digits (nat \<bar>round_half_up d\<bar>))
   \<and> formatDiff (percentDiff (Fin 45) (Fin 150)) = ''-70% vs baseline''
   \<and> formatDiff (percentDiff (Fin 150) (Fin 150)) = ''0% vs baseline''"
proof -
  have shape: "formatDiff (Fin d) =
     (if 0 < round_half_up d then ''+'' @ nat_digits (nat (round_half_up d))
      else if round_half_up d < 0 then ''-'' @ nat_digits (nat (- round_half_up d))
      else ''0'') @ ''% vs baseline''"
    by (cases "0 < round_half_up d"; cases "round_half_up d < 0")
       (simp_all add: formatDiff_def int_toString_def nat_digits_0)
  have near: "\<bar>of_int (round_half_up d) - d\<bar> \<le> 1 / 2"
    unfolding round_half_up_def by linarith
  have d70: "nat_digits 70 = ''70''"
    by code_simp
  have r70: "round_half_up (- 70) = - 70"
    by (simp add: round_half_up_def floor_eq_iff)
  have ex1: "formatDiff (percentDiff (Fin 45) (Fin 150)) = ''-70% vs baseline''"
    by (simp add: formatDiff_def percentDiff_def num_eq_def num_sub_def int_toString_def d70 r70)
  have ex2: "formatDiff (percentDiff (Fin 150) (Fin 150)) = ''0% vs baseline''"
    by (simp add: formatDiff_def percentDiff_def num_eq_def num_sub_def int_toString_def
        nat_digits_0 round_half_up_def)
  from shape near nat_digits_all_digits ex1 ex2 show ?thesis
    by blast
qed

text \<open>
  C7. \<open>loadEntries\<close> returns the array that the data file holds. When the file is
  missing or its text is not JSON, reading or parsing throws inside the function, and the
  function returns the empty array instead of raising the exception; it also returns the
  empty array when the text is JSON but no array.
\<close>

theorem loadEntries_spec:
  "loadEntries (Some (Encodes (JArr es))) = JArr es
   \<and> loadEntries_try None = Inl ENOENT \<and> loadEntries None = JArr []
   \<and> loadEntries_try (Some Malformed) = Inl SyntaxError \<and> loadEntries (Some Malformed) = JArr []
   \<and> loadEntries (Some (Encodes v)) = (if isArray v then v else JArr [])"
  by (simp add: loadEntries_def loadEntries_try_def readFileSync_def JSON_parse_def)

text \<open>
  C10. When the text of the data file is JSON but not an array (an object, a string, a
  number), \<open>loadEntries\<close> returns the empty array, as it does for text that is not JSON;
  whatever the file is, the result of \<open>loadEntries\<close> is an array.
\<close>

theorem loadEntries_not_array:
  "(\<not> isArray v \<longrightarrow>
      loadEntries (Some (Encodes v)) = JArr []
      \<and> loadEntries (Some (Encodes v)) = loadEntries (Some Malformed))
   \<and> isArray (loadEntries fs)"
proof -
  have "isArray (loadEntries fs)"
  proof (cases fs)
    case None
    then show ?thesis
      by (simp add: loadEntries_def loadEntries_try_def readFileSync_def)
  next
    case (Some raw)
    then show ?thesis
      by (cases raw)
         (simp_all add: loadEntries_def loadEntries_try_def readFileSync_def JSON_parse_def)
  qed
  then show ?thesis
    by (simp add: loadEntries_def loadEntries_try_def readFileSync_def JSON_parse_def)
qed

theorem loadEntries_not_array_witness:
  "\<not> isArray (JObj [(''date'', JStr ''2024-01-01'')])
   \<and> loadEntries (Some (Encodes (JObj [(''date'', JStr ''2024-01-01'')]))) = JArr []
   \<and> loadEntries (Some (Encodes (JStr ''[]''))) = JArr []
   \<and> loadEntries (Some (Encodes (JNum 7))) = JArr []"
  using loadEntries_not_array [of "JObj [(''date'', JStr ''2024-01-01'')]"]
    loadEntries_not_array [of "JStr ''[]''"] loadEntries_not_array [of "JNum 7"]
  by simp

text \<open>
  C9. \<open>saveEntry\<close> succeeds on every list without \<^verbatim>\<open>null\<close> elements, and whenever it
  succeeds, every record whose date is not today is unchanged and at its old position:
  either the first record of today is replaced in place, or no record has the date of
  today and the new record is appended at the end.
\<close>

theorem saveEntry_frame:
  assumes "loadEntries fs = JArr es"
  shows "(JNull \<notin> set es \<longrightarrow> (\<exists>entry fs'. saveEntry now amount fs = Inr (entry, fs')))
     \<and> (\<forall>entry fs'. saveEntry now amount fs = Inr (entry, fs') \<longrightarrow>
          entry = \<lparr>entry_date = toDateString (TimeValue now), entry_amount = amount\<rparr>
          \<and> (\<exists>es'. loadEntries fs' = JArr es'
                \<and> (\<forall>i<length es. date_of (es ! i) \<noteq> Some (entry_date entry)
                       \<longrightarrow> es' ! i = es ! i)
                \<and> ((\<exists>j<length es. date_of (es ! j) = Some (entry_date entry)
                        \<and> es' = es[j := entry_json entry])
                     \<or> ((\<forall>e\<in>set es. date_of e \<noteq> Some (entry_date entry))
                        \<and> es' = es @ [entry_json entry]))))"
proof (intro conjI allI impI)
  assume "JNull \<notin> set es"
  with assms show "\<exists>entry fs'. saveEntry now amount fs = Inr (entry, fs')"
    by (rule saveEntry_total)
next
  fix entry fs'
  assume s: "saveEntry now amount fs = Inr (entry, fs')"
  from saveEntry_Inr [OF assms s]
  show "entry = \<lparr>entry_date = toDateString (TimeValue now), entry_amount = amount\<rparr>"
    by simp
next
  fix entry fs'
  assume s: "saveEntry now amount fs = Inr (entry, fs')"
  let ?t = "entry_date entry" and ?x = "entry_json entry"
  from saveEntry_Inr [OF assms s]
  have fs': "fs' = Some (Encodes (JArr (upsert ?t ?x es)))"
    by simp
  have "loadEntries fs' = JArr (upsert ?t ?x es)"
    by (simp add: fs' loadEntries_array)
  moreover have "\<forall>i<length es. date_of (es ! i) \<noteq> Some ?t \<longrightarrow> upsert ?t ?x es ! i = es ! i"
    by (simp add: upsert_frame)
  moreover have "(\<exists>j<length es. date_of (es ! j) = Some ?t \<and> upsert ?t ?x es = es[j := ?x])
       \<or> ((\<forall>e\<in>set es. date_of e \<noteq> Some ?t) \<and> upsert ?t ?x es = es @ [?x])"
    using upsert_cases [where t = ?t and es = es and x = ?x] by blast
  ultimately show "\<exists>es'. loadEntries fs' = JArr es'
       \<and> (\<forall>i<length es. date_of (es ! i) \<noteq> Some ?t \<longrightarrow> es' ! i = es ! i)
       \<and> ((\<exists>j<length es. date_of (es ! j) = Some ?t \<and> es' = es[j := ?x])
            \<or> ((\<forall>e\<in>set es. date_of e \<noteq> Some ?t) \<and> es' = es @ [?x]))"
    by blast
qed

theorem saveEntry_frame_witness:
  "loadEntries scenario_disk = JArr scenario_entries
   \<and> JNull \<notin> set scenario_entries
   \<and> (\<exists>entry fs' es'. saveEntry scenario_now (Fin 30) scenario_disk = Inr (entry, fs')
         \<and> entry_date entry = ''2024-01-15''
         \<and> loadEntries fs' = JArr es'
         \<and> es' ! 0 = usage_record ''2024-01-01'' 40
         \<and> es' ! 1 = usage_record ''2024-01-08'' 50)"
proof -
  note frame = saveEntry_frame [OF scenario_load, of scenario_now "Fin 30"]
  have n: "JNull \<notin> set scenario_entries"
    by (simp add: scenario_entries_def usage_record_def)
  with frame obtain entry fs' where s: "saveEntry scenario_now (Fin 30) scenario_disk = Inr (entry, fs')"
    by blast
  with frame have d: "entry_date entry = ''2024-01-15''"
    by (simp add: scenario_today)
  from frame s obtain es' where es': "loadEntries fs' = JArr es'"
    and keep: "\<forall>i<length scenario_entries.
        date_of (scenario_entries ! i) \<noteq> Some (entry_date entry) \<longrightarrow> es' ! i = scenario_entries ! i"
    by blast
  from keep [rule_format, of 0] keep [rule_format, of 1] d
  have "es' ! 0 = usage_record ''2024-01-01'' 40 \<and> es' ! 1 = usage_record ''2024-01-08'' 50"
    by (simp add: scenario_entries_def usage_record_def)
  with scenario_load n s d es' show ?thesis
    by blast
qed

text \<open>
  C4. Starting from records with pairwise different dates, saving a whole number \<open>n\<close>
  twice on the same day succeeds both times and leaves exactly one record of today, with
  amount \<open>n\<close>, and no two records of one date; the second save changes nothing. The
  first save replaces the record of today in place when there is one, and appends the new
  record otherwise.
\<close>

theorem saveEntry_twice:
  fixes n :: nat
  assumes "loadEntries fs = JArr es"
    and "list_all (\<lambda>e. date_of e \<noteq> None) es"
    and "distinct (map date_of es)"
    and "toDateString (TimeValue now2) = toDateString (TimeValue now1)"
  shows "\<exists>e1 fs1 e2 fs2 es1 es2.
           saveEntry now1 (Fin (of_nat n)) fs = Inr (e1, fs1)
         \<and> saveEntry now2 (Fin (of_nat n)) fs1 = Inr (e2, fs2)
         \<and> loadEntries fs1 = JArr es1 \<and> loadEntries fs2 = JArr es2
         \<and> filter (\<lambda>e. date_of e = Some (toDateString (TimeValue now1))) es2
             = [usage_record (toDateString (TimeValue now1)) (of_nat n)]
         \<and> distinct (map date_of es2)
         \<and> es2 = es1
         \<and> ((\<exists>j<length es. date_of (es ! j) = Some (toDateString (TimeValue now1))
                 \<and> es1 = es[j := usage_record (toDateString (TimeValue now1)) (of_nat n)])
              \<or> ((\<forall>e\<in>set es. date_of e \<noteq> Some (toDateString (TimeValue now1)))
                 \<and> es1 = es @ [usage_record (toDateString (TimeValue now1)) (of_nat n)]))"
proof -
  let ?t = "toDateString (TimeValue now1)"
  let ?x = "usage_record ?t (of_nat n)"
  let ?es1 = "upsert ?t ?x es"
  have x: "entry_json \<lparr>entry_date = ?t, entry_amount = Fin (of_nat n)\<rparr> = ?x"
    by (simp add: entry_json_def usage_record_def)
  have dx: "date_of ?x = Some ?t"
    by (simp add: usage_record_def)
  have xn: "?x \<noteq> JNull"
    by (simp add: usage_record_def)
  from assms(2) have nonull: "JNull \<notin> set es"
    by (auto simp: list_all_iff)
  from saveEntry_total [OF assms(1) nonull]
  obtain e1 fs1 where s1: "saveEntry now1 (Fin (of_nat n)) fs = Inr (e1, fs1)"
    by blast
  from saveEntry_Inr [OF assms(1) s1] x
  have fs1: "fs1 = Some (Encodes (JArr ?es1))"
    by simp
  then have l1: "loadEntries fs1 = JArr ?es1"
    by (simp add: loadEntries_array)
  from upsert_no_null [OF xn nonull] have nonull1: "JNull \<notin> set ?es1" .
  from saveEntry_total [OF l1 nonull1]
  obtain e2 fs2 where s2: "saveEntry now2 (Fin (of_nat n)) fs1 = Inr (e2, fs2)"
    by blast
  from saveEntry_Inr [OF l1 s2] x assms(4)
  have "fs2 = Some (Encodes (JArr (upsert ?t ?x ?es1)))"
    by simp
  with upsert_idem [OF dx] have fs2: "fs2 = Some (Encodes (JArr ?es1))"
    by simp
  then have l2: "loadEntries fs2 = JArr ?es1"
    by (simp add: loadEntries_array)
  have one: "filter (\<lambda>e. date_of e = Some ?t) ?es1 = [?x]"
    using dx assms(3) by (rule upsert_filter)
  have dist: "distinct (map date_of ?es1)"
    using dx assms(3) by (rule upsert_distinct)
  have place: "(\<exists>j<length es. date_of (es ! j) = Some ?t \<and> ?es1 = es[j := ?x])
       \<or> ((\<forall>e\<in>set es. date_of e \<noteq> Some ?t) \<and> ?es1 = es @ [?x])"
    using upsert_cases [where t = ?t and es = es and x = ?x] by blast
  from s1 s2 l1 l2 one dist place show ?thesis
    by blast
qed

theorem saveEntry_twice_witness:
  "loadEntries scenario_disk = JArr scenario_entries
   \<and> list_all (\<lambda>e. date_of e \<noteq> None) scenario_entries
   \<and> distinct (map date_of scenario_entries)
   \<and> (\<exists>e1 fs1 e2 fs2 es2.
         saveEntry scenario_now (Fin 30) scenario_disk = Inr (e1, fs1)
       \<and> saveEntry (scenario_now + 60000) (Fin 30) fs1 = Inr (e2, fs2)
       \<and> loadEntries fs2 = JArr es2
       \<and> filter (\<lambda>e. date_of e = Some ''2024-01-15'') es2 = [usage_record ''2024-01-15'' 30]
       \<and> es2 = scenario_entries @ [usage_record ''2024-01-15'' 30])"
proof -
  have rec: "list_all (\<lambda>e. date_of e \<noteq> None) scenario_entries"
    by (simp add: scenario_entries_def usage_record_def)
  have dist: "distinct (map date_of scenario_entries)"
    by (simp add: scenario_entries_def usage_record_def)
  have day: "toDateString (TimeValue (scenario_now + 60000)) = toDateString (TimeValue scenario_now)"
    by code_simp
  have "\<forall>e\<in>set scenario_entries. date_of e \<noteq> Some ''2024-01-15''"
    by (simp add: scenario_entries_def usage_record_def)
  then have fresh: "\<not> (\<exists>j<length scenario_entries. date_of (scenario_entries ! j) = Some ''2024-01-15'')"
    using nth_mem by blast
  have n30: "(of_nat 30 :: rat) = 30"
    by simp
  from saveEntry_twice [OF scenario_load rec dist day, of 30] fresh
  have "\<exists>e1 fs1 e2 fs2 es2.
         saveEntry scenario_now (Fin 30) scenario_disk = Inr (e1, fs1)
       \<and> saveEntry (scenario_now + 60000) (Fin 30) fs1 = Inr (e2, fs2)
       \<and> loadEntries fs2 = JArr es2
       \<and> filter (\<lambda>e. date_of e = Some ''2024-01-15'') es2 = [usage_record ''2024-01-15'' 30]
       \<and> es2 = scenario_entries @ [usage_record ''2024-01-15'' 30]"
    unfolding scenario_today n30 by (elim exE conjE disjE) blast+
  with scenario_load rec dist show ?thesis
    by blast
qed

text \<open>
  C2. When \<open>today\<close> is a Monday, with \<open>m\<close> its midnight and \<open>d\<close> its day number:
  the range of last week runs from \<open>m\<close> minus 7 days to \<open>m\<close> minus 1 day and the range
  of the week before from \<open>m\<close> minus 14 days to \<open>m\<close> minus 8 days. Each covers 7
  consecutive days (\<open>d - 7\<close> to \<open>d - 1\<close>, and \<open>d - 14\<close> to \<open>d - 8\<close>), the two have no
  day in common, the end of the earlier range plus one day is the start of the later one,
  and each runs from a Monday to a Sunday.
\<close>

theorem getWeekRange_spec:
  assumes "getDay today = Fin 1"
  shows "\<exists>m d. startOfDay today = TimeValue m \<and> d = Day m
     \<and> getWeekRange today (Fin 1) =
         \<lparr>range_start = TimeValue (m - 7 * msPerDay), range_end = TimeValue (m - 1 * msPerDay)\<rparr>
     \<and> getWeekRange today (Fin 2) =
         \<lparr>range_start = TimeValue (m - 14 * msPerDay), range_end = TimeValue (m - 8 * msPerDay)\<rparr>
     \<and> range_days (getWeekRange today (Fin 1)) = [d - 7 .. d - 1]
     \<and> range_days (getWeekRange today (Fin 2)) = [d - 14 .. d - 8]
     \<and> length (range_days (getWeekRange today (Fin 1))) = 7
     \<and> length (range_days (getWeekRange today (Fin 2))) = 7
     \<and> set (range_days (getWeekRange today (Fin 1)))
           \<inter> set (range_days (getWeekRange today (Fin 2))) = {}
     \<and> date_value (range_start (getWeekRange today (Fin 1)))
           = num_add (date_value (range_end (getWeekRange today (Fin 2)))) (Fin (of_int msPerDay))
     \<and> getDay (range_start (getWeekRange today (Fin 1))) = Fin 1
     \<and> getDay (range_end (getWeekRange today (Fin 1))) = Fin 0
     \<and> getDay (range_start (getWeekRange today (Fin 2))) = Fin 1
     \<and> getDay (range_end (getWeekRange today (Fin 2))) = Fin 0"
proof -
  from getDay_Fin [OF assms] obtain t where t: "today = TimeValue t" and "(1 :: rat) = of_int (WeekDay t)"
    by blast
  then have "of_int (WeekDay t) = (of_int 1 :: rat)"
    by simp
  then have wd: "WeekDay t = 1"
    by (simp only: of_int_eq_iff)
  let ?m = "Day t * msPerDay"
  have sod: "startOfDay today = TimeValue ?m"
    by (simp add: t startOfDay_TimeValue)
  have dm: "Day ?m = Day t"
    using Day_shift [of t 0] by simp
  have last: "getWeekRange today (Fin 1) =
      \<lparr>range_start = TimeValue (?m - 7 * msPerDay), range_end = TimeValue (?m - 1 * msPerDay)\<rparr>"
    using getWeekRange_int [of t 1] by (simp add: t)
  have prev: "getWeekRange today (Fin 2) =
      \<lparr>range_start = TimeValue (?m - 14 * msPerDay), range_end = TimeValue (?m - 8 * msPerDay)\<rparr>"
    using getWeekRange_int [of t 2] by (simp add: t)
  have days1: "range_days (getWeekRange today (Fin 1)) = [Day t - 7 .. Day t - 1]"
    unfolding last range_days_def by (simp only: week_range.simps prod.case jsdate.case Day_shift)
  have days2: "range_days (getWeekRange today (Fin 2)) = [Day t - 14 .. Day t - 8]"
    unfolding prev range_days_def by (simp only: week_range.simps prod.case jsdate.case Day_shift)
  have len1: "length (range_days (getWeekRange today (Fin 1))) = 7"
    unfolding days1 by simp
  have len2: "length (range_days (getWeekRange today (Fin 2))) = 7"
    unfolding days2 by simp
  have disj: "set (range_days (getWeekRange today (Fin 1)))
           \<inter> set (range_days (getWeekRange today (Fin 2))) = {}"
    unfolding days1 days2 by auto
  have adj: "date_value (range_start (getWeekRange today (Fin 1)))
           = num_add (date_value (range_end (getWeekRange today (Fin 2)))) (Fin (of_int msPerDay))"
    unfolding last prev by (simp add: algebra_simps)
  from wd have wd': "(Day t + 4) mod 7 = 1"
    by (simp add: WeekDay_def)
  have mon1: "getDay (range_start (getWeekRange today (Fin 1))) = Fin 1"
    unfolding last using wd' by (simp add: WeekDay_def Day_shift) presburger
  have sun1: "getDay (range_end (getWeekRange today (Fin 1))) = Fin 0"
    unfolding last using wd' by (simp add: WeekDay_def Day_shift1) presburger
  have mon2: "getDay (range_start (getWeekRange today (Fin 2))) = Fin 1"
    unfolding last prev using wd' by (simp add: WeekDay_def Day_shift) presburger
  have sun2: "getDay (range_end (getWeekRange today (Fin 2))) = Fin 0"
    unfolding last prev using wd' by (simp add: WeekDay_def Day_shift) presburger
  from sod dm last prev days1 days2 len1 len2 disj adj mon1 sun1 mon2 sun2 show ?thesis
    by (intro exI [of _ ?m] exI [of _ "Day t"]) (simp only: simp_thms)
qed

theorem getWeekRange_spec_witness:
  "getDay (TimeValue scenario_now) = Fin 1
   \<and> toDateString (range_start (getWeekRange (TimeValue scenario_now) (Fin 1))) = ''2024-01-08''
   \<and> toDateString (range_end (getWeekRange (TimeValue scenario_now) (Fin 1))) = ''2024-01-14''
   \<and> toDateString (range_start (getWeekRange (TimeValue scenario_now) (Fin 2))) = ''2024-01-01''
   \<and> toDateString (range_end (getWeekRange (TimeValue scenario_now) (Fin 2))) = ''2024-01-07''
   \<and> range_days (getWeekRange (TimeValue scenario_now) (Fin 1)) = [19730 .. 19736]
   \<and> range_days (getWeekRange (TimeValue scenario_now) (Fin 2)) = [19723 .. 19729]"
proof -
  have mon: "getDay (TimeValue scenario_now) = Fin 1"
    by code_simp
  have sod: "startOfDay (TimeValue scenario_now) = TimeValue 1705276800000"
    by code_simp
  have d: "Day 1705276800000 = 19737"
    by code_simp
  have s: "toDateString (TimeValue (1705276800000 - 7 * msPerDay)) = ''2024-01-08''"
    "toDateString (TimeValue (1705276800000 - 1 * msPerDay)) = ''2024-01-14''"
    "toDateString (TimeValue (1705276800000 - 14 * msPerDay)) = ''2024-01-01''"
    "toDateString (TimeValue (1705276800000 - 8 * msPerDay)) = ''2024-01-07''"
    by code_simp+
  from getWeekRange_spec [OF mon] sod d s mon show ?thesis
    by auto
qed

text \<open>
  C6. An answer is accepted exactly when, after trimming, it is a non-empty string of
  decimal digits; the amount is then the number that the digits write. Every other
  answer is rejected with the fixed message: the run reports that error, exits with
  code 1 and leaves the stored records as they were (a data file that existed is
  untouched; a missing one has been created empty before the prompt).
\<close>

theorem promptForUsage_spec:
  "((\<exists>amount. promptForUsage answer = Inr amount)
      \<longleftrightarrow> trim answer \<noteq> [] \<and> set (trim answer) \<subseteq> set ''0123456789'')
   \<and> (trim answer \<noteq> [] \<and> set (trim answer) \<subseteq> set ''0123456789'' \<longrightarrow>
        promptForUsage answer = Inr (Fin (of_nat (digits_value 10 (trim answer)))))
   \<and> (\<not> (trim answer \<noteq> [] \<and> set (trim answer) \<subseteq> set ''0123456789'') \<longrightarrow>
        promptForUsage answer = Inl (Error ''Please enter a whole number of litres, e.g. 42'')
        \<and> run answer now1 now2 fs =
            \<lparr>out_disk = ensureDataFile fs, out_stdout = [question],
             out_stderr = [Error ''Please enter a whole number of litres, e.g. 42''],
             out_exit = 1\<rparr>
        \<and> loadEntries (out_disk (run answer now1 now2 fs)) = loadEntries fs
        \<and> (fs \<noteq> None \<longrightarrow> out_disk (run answer now1 now2 fs) = fs))"
proof (cases "test_digits (trim answer)")
  case True
  with promptForUsage_cases [of answer] test_digits_set [of "trim answer"] show ?thesis
    by simp
next
  case False
  with promptForUsage_cases [of answer]
  have p: "promptForUsage answer = Inl (Error ''Please enter a whole number of litres, e.g. 42'')"
    by simp
  then have r: "run answer now1 now2 fs =
            \<lparr>out_disk = ensureDataFile fs, out_stdout = [question],
             out_stderr = [Error ''Please enter a whole number of litres, e.g. 42''],
             out_exit = 1\<rparr>"
    by (simp add: run_def)
  have e: "fs \<noteq> None \<longrightarrow> ensureDataFile fs = fs"
    by (simp add: ensureDataFile_def existsSync_def)
  from False test_digits_set [of "trim answer"] p r e loadEntries_ensureDataFile [of fs]
  show ?thesis
    by simp
qed

theorem promptForUsage_spec_witness:
  "trim ''12.5'' = ''12.5'' \<and> \<not> set ''12.5'' \<subseteq> set ''0123456789''
   \<and> out_exit (run ''12.5'' scenario_now scenario_now scenario_disk) = 1
   \<and> out_disk (run ''12.5'' scenario_now scenario_now scenario_disk) = scenario_disk
   \<and> out_stderr (run ''12.5'' scenario_now scenario_now scenario_disk)
       = [Error ''Please enter a whole number of litres, e.g. 42'']
   \<and> trim ''abc'' = ''abc'' \<and> \<not> set ''abc'' \<subseteq> set ''0123456789''
   \<and> out_exit (run ''abc'' scenario_now scenario_now None) = 1
   \<and> loadEntries (out_disk (run ''abc'' scenario_now scenario_now None)) = loadEntries None
   \<and> trim '' 42  '' = ''42'' \<and> set ''42'' \<subseteq> set ''0123456789''
   \<and> promptForUsage '' 42  '' = Inr (Fin 42)"
proof -
  have t1: "trim ''12.5'' = ''12.5''" and t2: "trim ''abc'' = ''abc''" and t3: "trim '' 42  '' = ''42''"
    by code_simp+
  have d: "digits_value 10 ''42'' = 42"
    by code_simp
  have ne: "scenario_disk \<noteq> None"
    by (simp add: scenario_disk_def)
  have n1: "\<not> set ''12.5'' \<subseteq> set ''0123456789''" and n2: "\<not> set ''abc'' \<subseteq> set ''0123456789''"
    and n3: "set ''42'' \<subseteq> set ''0123456789''"
    by simp_all
  from promptForUsage_spec [of "''12.5''" scenario_now scenario_now scenario_disk] n1 ne
  have a: "out_exit (run ''12.5'' scenario_now scenario_now scenario_disk) = 1
      \<and> out_disk (run ''12.5'' scenario_now scenario_now scenario_disk) = scenario_disk
      \<and> out_stderr (run ''12.5'' scenario_now scenario_now scenario_disk)
           = [Error ''Please enter a whole number of litres, e.g. 42'']"
    unfolding t1 by auto
  from promptForUsage_spec [of "''abc''" scenario_now scenario_now None] n2
  have b: "out_exit (run ''abc'' scenario_now scenario_now None) = 1
      \<and> loadEntries (out_disk (run ''abc'' scenario_now scenario_now None)) = loadEntries None"
    unfolding t2 by auto
  from promptForUsage_spec [of "'' 42  ''" scenario_now scenario_now None] n3
  have c: "promptForUsage '' 42  '' = Inr (Fin 42)"
    unfolding t3 d by simp
  from a b c t1 t2 t3 n1 n2 n3 show ?thesis
    by blast
qed




text \<open>
  C3 (amended). On every Monday: when computing a sum throws, the exception goes on and
  no weekly report is written. Otherwise, when both sums are zero the report says that
  there is no data for the past two weeks; when only the sum of the prior week is zero it
  says that there is no data for the prior week to compare against, and no quotient is
  formed; otherwise it shows both totals with \<^verbatim>\<open>toFixed(1)\<close> and the absolute value of the
  change with its label. The change is \<^verbatim>\<open>Math.round\<close> of \<open>(last - prev) / prev * 100\<close> as
  double arithmetic computes it (each operation rounds to a double, so that 63 against 40
  gives 57); it is an increase when positive, a decrease when negative, no change when
  zero, and a decrease when it is NaN. For sums that are numbers this is the report of the
  specification (\<open>numeric_report\<close>), the totals having one decimal place.
\<close>

theorem maybePrintWeeklyChange_spec:
  assumes "getDay (startOfDay (TimeValue now)) = Fin 1"
    and "loadEntries fs = JArr es"
  shows "maybePrintWeeklyChange now fs =
     (case sumEntriesInRange es (getWeekRange (startOfDay (TimeValue now)) (Fin 1)) of
        Inl err \<Rightarrow> Inl err
      | Inr lastWeekTotal \<Rightarrow>
          (case sumEntriesInRange es (getWeekRange (startOfDay (TimeValue now)) (Fin 2)) of
             Inl err \<Rightarrow> Inl err
           | Inr prevWeekTotal \<Rightarrow> Inr (weekly_report lastWeekTotal prevWeekTotal)))
     \<and> weekly_report (Fin l) (Fin p) = numeric_report l p"
  using weekly_report_Monday [OF assms] weekly_report_numbers [of l p]
  by (rule conjI)

theorem maybePrintWeeklyChange_spec_witness:
  "getDay (startOfDay (TimeValue scenario_now)) = Fin 1
   \<and> loadEntries scenario_disk = JArr scenario_entries
   \<and> maybePrintWeeklyChange scenario_now scenario_disk =
       Inr [weekly_header, ''  Total last week: 50.0 L'', ''  Total prior week: 40.0 L'',
            ''  Change: 25% increase'']
   \<and> loadEntries (Some (Encodes (JArr rounding_entries))) = JArr rounding_entries
   \<and> maybePrintWeeklyChange scenario_now (Some (Encodes (JArr rounding_entries))) =
       Inr [weekly_header, ''  Total last week: 63.0 L'', ''  Total prior week: 40.0 L'',
            ''  Change: 57% increase'']
   \<and> numeric_report 63 40 =
       [weekly_header, ''  Total last week: 63.0 L'', ''  Total prior week: 40.0 L'',
        ''  Change: 57% increase'']"
proof -
  have load: "loadEntries (Some (Encodes (JArr rounding_entries))) = JArr rounding_entries"
    by (rule loadEntries_array)
  from maybePrintWeeklyChange_spec [OF scenario_monday scenario_load, of 50 40]
  have a: "maybePrintWeeklyChange scenario_now scenario_disk =
       Inr [weekly_header, ''  Total last week: 50.0 L'', ''  Total prior week: 40.0 L'',
            ''  Change: 25% increase'']"
    unfolding scenario_last_week scenario_prev_week
    by (simp add: scenario_sum_last scenario_sum_prev report_50_40)
  from maybePrintWeeklyChange_spec [OF scenario_monday load, of 63 40]
  have b: "maybePrintWeeklyChange scenario_now (Some (Encodes (JArr rounding_entries))) =
       Inr [weekly_header, ''  Total last week: 63.0 L'', ''  Total prior week: 40.0 L'',
            ''  Change: 57% increase'']"
    and c: "numeric_report 63 40 =
       [weekly_header, ''  Total last week: 63.0 L'', ''  Total prior week: 40.0 L'',
        ''  Change: 57% increase'']"
    unfolding scenario_last_week scenario_prev_week
    by (simp_all add: rounding_sum_last rounding_sum_prev report_63_40)
  from scenario_monday scenario_load a load b c show ?thesis
    by blast
qed

text \<open>
  C3 as it is stated fails on the Monday of 15 January 2024 with a record of last week
  whose amount is \<^verbatim>\<open>"abc"\<close>: the sum of last week is NaN, the total is shown as \<^verbatim>\<open>NaN\<close>
  and not with one decimal place, and the change, which is NaN and not negative, is
  reported as a decrease.
\<close>

theorem maybePrintWeeklyChange_counterexample:
  "maybePrintWeeklyChange 1705311000000
     (Some (Encodes (JArr
        [JObj [(''date'', JStr ''2024-01-01''), (''amount'', JNum 40)],
         JObj [(''date'', JStr ''2024-01-08''), (''amount'', JStr ''abc'')]])))
   = Inr [weekly_header, ''  Total last week: NaN L'', ''  Total prior week: 40.0 L'',
          ''  Change: NaN% decrease'']"
proof -
  have now: "scenario_now = 1705311000000"
    by (simp add: scenario_now_def msPerDay_def)
  have load: "loadEntries (Some (Encodes (JArr nan_entries))) = JArr nan_entries"
    by (rule loadEntries_array)
  have "maybePrintWeeklyChange scenario_now (Some (Encodes (JArr nan_entries))) =
      Inr (weekly_report NaN (Fin 40))"
    unfolding weekly_report_Monday [OF scenario_monday load] scenario_last_week scenario_prev_week
    by (simp add: nan_sum_last nan_sum_prev)
  then show ?thesis
    by (simp add: now nan_entries_def usage_record_def report_NaN_40)
qed

end
